theory Spec2Isabelle
  imports Complex_Main
begin

section \<open>The coevolution application of ProDy: task planning and output pipeline\<close>

text \<open>
  This theory embeds the function \<^verbatim>\<open>evol_coevol(msa, **kwargs)\<close> of
  \<^verbatim>\<open>lib/prody/apps/evol_apps/evol_coevol.py\<close>. The function derives an output
  prefix, parses the alignment, builds the mutual information matrix and writes it, plans
  a list \<^verbatim>\<open>todo\<close> of tasks from the requested normalizations and corrections, and then
  writes one matrix (and, on request, one figure) per task.

  The numerical routines, the array writer, the logger and the plotting library are
  imported from other modules. They are parameters of the model (the record
  \<open>collab\<close>); every call of one of them that the function makes is recorded, in order,
  in a trace, and every call may raise.
\<close>

subsection \<open>Keyword arguments\<close>

text \<open>
  A keyword argument is absent from \<^verbatim>\<open>kwargs\<close>, or given; a given value may be
  Python's \<^verbatim>\<open>None\<close> (argparse stores \<^verbatim>\<open>None\<close> for an option that was not
  used). \<open>kw_get v d\<close> is \<^verbatim>\<open>kwargs.get(key, d)\<close>.
\<close>

datatype 'a kwarg = Absent | Given "'a option"

fun kw_get :: "'a kwarg \<Rightarrow> 'a option \<Rightarrow> 'a option" where
  "kw_get Absent d = d"
| "kw_get (Given v) d = v"

text \<open>Truth value of \<^verbatim>\<open>kwargs.get('figcoevol')\<close> in an \<^verbatim>\<open>if\<close>.\<close>

fun truthy :: "bool option \<Rightarrow> bool" where
  "truthy None = False"
| "truthy (Some b) = b"

text \<open>
  The keys are the destinations declared with \<^verbatim>\<open>APP.addArgument\<close>,
  \<^verbatim>\<open>APP.addFigarg\<close> and \<^verbatim>\<open>APP.addFigure\<close> (lines 44 to 108), and the figure
  keys that the function reads (lines 177 to 186). \<open>'x\<close> is the type of an extra
  positional argument for the plotting routine. Other keys are outside the model, among
  them a key \<^verbatim>\<open>norm\<close>, which the call of line 151 cannot take a second time.
\<close>

record 'x kwargs =
  ambiguity :: "bool kwarg"
  omitgaps :: "bool kwarg"
  correction :: "string list kwarg"
  normalization :: "string list kwarg"
  prefix :: "string kwarg"
  numformat :: "string kwarg"
  cmin :: "real kwarg"
  cmax :: "real kwarg"
  figcoevol :: "bool kwarg"
  figwidth :: "real kwarg"
  figheight :: "real kwarg"
  figargs :: "'x list kwarg"
  figformat :: "string kwarg"
  figdpi :: "real kwarg"

subsection \<open>Exceptions, tasks, events\<close>

text \<open>
  \<open>ImportError\<close> is the class that line 170 catches, \<open>TypeError\<close> is raised by the
  interpreter for \<^verbatim>\<open>*None\<close> and \<^verbatim>\<open>'.' + None\<close>; \<open>Raised name\<close> is any other
  exception of a collaborator.
\<close>

datatype exn = ImportError | TypeError | Raised string

text \<open>A value stored in \<^verbatim>\<open>prody.SETTINGS\<close>.\<close>

datatype pyval = PyBool bool | PyInt int | PyStr string

text \<open>
  The elements of \<^verbatim>\<open>todo\<close>: \<open>Base\<close> is \<^verbatim>\<open>(None, None)\<close>, \<open>Norm w\<close> is
  \<^verbatim>\<open>('norm', w)\<close>, \<open>Corr w\<close> is \<^verbatim>\<open>('corr', w)\<close>.
\<close>

datatype task = Base | Norm string | Corr string

text \<open>
  What the function does to the outside, in the order it does it. \<open>'a\<close> is the type of
  a parsed alignment, \<open>'m\<close> of a matrix. \<open>CallBuildMutinfo a n\<close> is a call of
  \<^verbatim>\<open>buildMutinfoMatrix\<close>, with \<^verbatim>\<open>norm=True\<close> when \<open>n\<close> holds.
\<close>

datatype ('a, 'm, 'x) event =
    CallParseMSA string
  | CallBuildMutinfo 'a bool
  | CallShannonEntropy 'a
  | InfoNormalization string
  | InfoCorrection string
  | WarnNoMatplotlib
  | WriteArray string 'm "string option"
  | PltFigure "real option" "real option"
  | ShowMutinfo 'm "'x list" 'a
  | SaveFig string string "real option"

subsection \<open>Collaborators\<close>

text \<open>
  The imported routines (lines 113 to 117 and 169). A result \<open>Inl e\<close> (or \<open>Some e\<close>
  for a routine called for its effect) is the exception \<open>e\<close>. \<open>'e\<close> is the type of an
  entropy vector; \<^verbatim>\<open>calcShannonEntropy\<close> returns one, never \<^verbatim>\<open>None\<close>.
  \<open>import_pyplot\<close> is the statement \<^verbatim>\<open>import matplotlib.pyplot as plt\<close>.
  A collaborator is a function of its arguments: called twice with the same arguments, it
  gives the same result.
\<close>

record ('a, 'm, 'e, 'x) collab =
  parseMSA :: "string \<Rightarrow> exn + 'a"
  buildMutinfoMatrix :: "'a \<Rightarrow> bool \<Rightarrow> 'x kwargs \<Rightarrow> exn + 'm"
  calcShannonEntropy :: "'a \<Rightarrow> 'x kwargs \<Rightarrow> exn + 'e"
  applyMutinfoNorm :: "'m \<Rightarrow> 'e \<Rightarrow> string \<Rightarrow> exn + 'm"
  applyMutinfoCorr :: "'m \<Rightarrow> string \<Rightarrow> exn + 'm"
  writeArray :: "string \<Rightarrow> 'm \<Rightarrow> string option \<Rightarrow> exn option"
  import_pyplot :: "exn option"
  plt_figure :: "real option \<Rightarrow> real option \<Rightarrow> exn option"
  showMutinfoMatrix :: "'m \<Rightarrow> 'x list \<Rightarrow> 'a \<Rightarrow> exn option"
  savefig :: "string \<Rightarrow> string \<Rightarrow> real option \<Rightarrow> exn option"

subsection \<open>State\<close>

text \<open>
  \<open>world\<close> is what outlives the call: the package settings \<^verbatim>\<open>prody.SETTINGS\<close> and
  the trace of events. \<open>state\<close> adds the local variables that the loop over
  \<^verbatim>\<open>todo\<close> reads: \<^verbatim>\<open>msa\<close> (the parsed alignment), \<^verbatim>\<open>mutinfo\<close> and
  \<^verbatim>\<open>entropy\<close> (\<open>None\<close> until it is computed).
\<close>

record ('a, 'm, 'x) world =
  SETTINGS :: "string \<rightharpoonup> pyval"
  trace :: "('a, 'm, 'x) event list"

record ('a, 'm, 'e, 'x) state = "('a, 'm, 'x) world" +
  msa :: 'a
  mutinfo :: 'm
  entropy :: "'e option"

definition emit ::
  "('a, 'm, 'x) event \<Rightarrow> ('a, 'm, 'x, 'z) world_scheme \<Rightarrow> ('a, 'm, 'x, 'z) world_scheme" where
  "emit ev w = w\<lparr>trace := trace w @ [ev]\<rparr>"

subsection \<open>The default prefix (lines 119 to 124)\<close>

text \<open>
  \<^verbatim>\<open>os.path.splitext\<close> of the Python standard library, for POSIX paths
  (\<^verbatim>\<open>genericpath._splitext(p, '/', None, '.')\<close>): the extension starts at the last dot
  of the last path component, unless only dots precede that dot in the component.
  \<open>rfind\<close> is \<^verbatim>\<open>str.rfind\<close> for a single character.
\<close>

definition rfind :: "string \<Rightarrow> char \<Rightarrow> int" where
  "rfind p c =
     (if c \<in> set p then int (length p) - 1 - int (length (takeWhile (\<lambda>x. x \<noteq> c) (rev p)))
      else - 1)"

definition splitext :: "string \<Rightarrow> string \<times> string" where
  "splitext p =
     (let sepIndex = rfind p (CHR ''/'');
          dotIndex = rfind p (CHR ''.'')
      in if dotIndex > sepIndex \<and>
            list_ex (\<lambda>c. c \<noteq> CHR ''.'') (drop (nat (sepIndex + 1)) (take (nat dotIndex) p))
         then (take (nat dotIndex) p, drop (nat dotIndex) p)
         else (p, []))"

text \<open>
  \<^verbatim>\<open>str.lower\<close> on the letters that matter for the comparison with \<^verbatim>\<open>'.gz'\<close>:
  the ASCII capitals are the only characters that it maps to \<^verbatim>\<open>g\<close> or \<^verbatim>\<open>z\<close>.
\<close>

definition lower_char :: "char \<Rightarrow> char" where
  "lower_char c =
     (case map_of (zip ''ABCDEFGHIJKLMNOPQRSTUVWXYZ'' ''abcdefghijklmnopqrstuvwxyz'') c of
        None \<Rightarrow> c
      | Some l \<Rightarrow> l)"

definition lower :: "string \<Rightarrow> string" where
  "lower s = map lower_char s"

definition default_prefix :: "string \<Rightarrow> string" where
  "default_prefix file =
     (case splitext file of
        (p, ext) \<Rightarrow>
          (if lower ext = ''.gz'' then fst (splitext p) else p) @ ''_mutinfo'')"

definition out_prefix :: "'x kwargs \<Rightarrow> string \<Rightarrow> string" where
  "out_prefix kw file =
     (case kw_get (prefix kw) None of
        None \<Rightarrow> default_prefix file
      | Some p \<Rightarrow> p)"

subsection \<open>Planning (lines 131 to 142)\<close>

text \<open>The two \<^verbatim>\<open>for\<close> loops; the second argument is \<^verbatim>\<open>todo\<close> so far.\<close>

fun norm_loop :: "string list \<Rightarrow> task list \<Rightarrow> task list" where
  "norm_loop [] todo = todo"
| "norm_loop (which # rest) todo =
     (if which = ''join'' then norm_loop rest todo
      else norm_loop rest (todo @ [Norm which]))"

fun corr_loop :: "string list \<Rightarrow> task list \<Rightarrow> task list" where
  "corr_loop [] todo = todo"
| "corr_loop (which # rest) todo = corr_loop rest (todo @ [Corr which])"

definition plan :: "string list option \<Rightarrow> string list option \<Rightarrow> task list" where
  "plan nrm crr =
     (let todo0 = [Base];
          todo1 = (case nrm of
                     None \<Rightarrow> todo0
                   | Some ns \<Rightarrow>
                       norm_loop ns
                         (if ''joint'' \<in> set ns then todo0 @ [Norm ''joint''] else todo0))
      in case crr of
           None \<Rightarrow> todo1
         | Some cs \<Rightarrow> corr_loop cs todo1)"

definition todo :: "'x kwargs \<Rightarrow> task list" where
  "todo kw = plan (kw_get (normalization kw) (Some [])) (kw_get (correction kw) (Some []))"

subsection \<open>One task (lines 146 to 186)\<close>

text \<open>Lines 150 to 152.\<close>

definition joint_matrix ::
  "('a, 'm, 'e, 'x) collab \<Rightarrow> 'x kwargs \<Rightarrow> string \<Rightarrow> ('a, 'm, 'e, 'x) state \<Rightarrow>
     (exn + 'm \<times> string) \<times> ('a, 'm, 'e, 'x) state" where
  "joint_matrix env kw which st =
     (let st1 = emit (InfoNormalization which) st;
          st2 = emit (CallBuildMutinfo (msa st1) True) st1
      in case buildMutinfoMatrix env (msa st1) True kw of
           Inl e \<Rightarrow> (Inl e, st2)
         | Inr matrix \<Rightarrow> (Inr (matrix, ''_norm_joint''), st2))"

text \<open>Lines 155 and 156: the entropy is computed when the variable still is \<^verbatim>\<open>None\<close>.\<close>

definition get_entropy ::
  "('a, 'm, 'e, 'x) collab \<Rightarrow> 'x kwargs \<Rightarrow> ('a, 'm, 'e, 'x) state \<Rightarrow>
     (exn + 'e) \<times> ('a, 'm, 'e, 'x) state" where
  "get_entropy env kw st =
     (case entropy st of
        Some en \<Rightarrow> (Inr en, st)
      | None \<Rightarrow>
          (let st1 = emit (CallShannonEntropy (msa st)) st
           in case calcShannonEntropy env (msa st) kw of
                Inl e \<Rightarrow> (Inl e, st1)
              | Inr en \<Rightarrow> (Inr en, st1\<lparr>entropy := Some en\<rparr>)))"

text \<open>Lines 154 to 158.\<close>

definition norm_matrix ::
  "('a, 'm, 'e, 'x) collab \<Rightarrow> 'x kwargs \<Rightarrow> string \<Rightarrow> ('a, 'm, 'e, 'x) state \<Rightarrow>
     (exn + 'm \<times> string) \<times> ('a, 'm, 'e, 'x) state" where
  "norm_matrix env kw which st =
     (case get_entropy env kw (emit (InfoNormalization which) st) of
        (Inl e, st1) \<Rightarrow> (Inl e, st1)
      | (Inr en, st1) \<Rightarrow>
          (case applyMutinfoNorm env (mutinfo st1) en which of
             Inl e \<Rightarrow> (Inl e, st1)
           | Inr matrix \<Rightarrow> (Inr (matrix, ''_norm_'' @ which), st1)))"

text \<open>Lines 160 to 162.\<close>

definition corr_matrix ::
  "('a, 'm, 'e, 'x) collab \<Rightarrow> string \<Rightarrow> ('a, 'm, 'e, 'x) state \<Rightarrow>
     (exn + 'm \<times> string) \<times> ('a, 'm, 'e, 'x) state" where
  "corr_matrix env which st =
     (let st1 = emit (InfoCorrection which) st
      in case applyMutinfoCorr env (mutinfo st1) which of
           Inl e \<Rightarrow> (Inl e, st1)
         | Inr matrix \<Rightarrow> (Inr (matrix, ''_corr_'' @ which), st1))"

text \<open>
  Lines 146 to 162, the choice of the matrix and of the suffix. The test
  \<^verbatim>\<open>which == 'joint'\<close> of line 149 comes before the test of \<^verbatim>\<open>what\<close>, for a
  correction as well.
\<close>

fun select_matrix ::
  "('a, 'm, 'e, 'x) collab \<Rightarrow> 'x kwargs \<Rightarrow> task \<Rightarrow> ('a, 'm, 'e, 'x) state \<Rightarrow>
     (exn + 'm \<times> string) \<times> ('a, 'm, 'e, 'x) state" where
  "select_matrix env kw Base st = (Inr (mutinfo st, ''''), st)"
| "select_matrix env kw (Norm which) st =
     (if which = ''joint'' then joint_matrix env kw which st
      else norm_matrix env kw which st)"
| "select_matrix env kw (Corr which) st =
     (if which = ''joint'' then joint_matrix env kw which st
      else corr_matrix env which st)"

text \<open>Lines 164 and 165.\<close>

definition write_text ::
  "('a, 'm, 'e, 'x) collab \<Rightarrow> 'x kwargs \<Rightarrow> string \<Rightarrow> 'm \<Rightarrow> string \<Rightarrow>
     ('a, 'm, 'e, 'x) state \<Rightarrow> exn option \<times> ('a, 'm, 'e, 'x) state" where
  "write_text env kw pfx matrix suffix st =
     (let fmt = kw_get (numformat kw) (Some ''%12g'');
          file = pfx @ suffix @ ''.txt''
      in (writeArray env file matrix fmt, emit (WriteArray file matrix fmt) st))"

text \<open>
  Lines 167 to 186. Only the import stands inside the \<^verbatim>\<open>try\<close>; the \<^verbatim>\<open>else\<close>
  branch, which draws and saves, is not covered by the \<^verbatim>\<open>except\<close> clause.
\<close>

definition save_figure ::
  "('a, 'm, 'e, 'x) collab \<Rightarrow> 'x kwargs \<Rightarrow> string \<Rightarrow> 'm \<Rightarrow> string \<Rightarrow>
     ('a, 'm, 'e, 'x) state \<Rightarrow> exn option \<times> ('a, 'm, 'e, 'x) state" where
  "save_figure env kw pfx matrix suffix st =
     (if \<not> truthy (kw_get (figcoevol kw) None) then (None, st)
      else case import_pyplot env of
        Some e \<Rightarrow> (if e = ImportError then (None, emit WarnNoMatplotlib st) else (Some e, st))
      | None \<Rightarrow>
          (let st1 = st\<lparr>SETTINGS := (SETTINGS st)(''auto_show'' \<mapsto> PyBool False)\<rparr>;
               width = kw_get (figwidth kw) (Some 8);
               height = kw_get (figheight kw) (Some 6);
               st2 = emit (PltFigure width height) st1
           in case plt_figure env width height of
                Some e \<Rightarrow> (Some e, st2)
              | None \<Rightarrow>
                  (case kw_get (figargs kw) (Some []) of
                     None \<Rightarrow> (Some TypeError, st2)
                   | Some args \<Rightarrow>
                       (let st3 = emit (ShowMutinfo matrix args (msa st2)) st2
                        in case showMutinfoMatrix env matrix args (msa st2) of
                             Some e \<Rightarrow> (Some e, st3)
                           | None \<Rightarrow>
                               (case kw_get (figformat kw) (Some ''pdf'') of
                                  None \<Rightarrow> (Some TypeError, st3)
                                | Some fmt \<Rightarrow>
                                    (let file = pfx @ suffix @ ''.'' @ fmt;
                                         dpi = kw_get (figdpi kw) (Some 300)
                                     in (savefig env file fmt dpi,
                                         emit (SaveFig file fmt dpi) st3)))))))"

text \<open>The body of the loop of line 145.\<close>

definition do_task ::
  "('a, 'm, 'e, 'x) collab \<Rightarrow> 'x kwargs \<Rightarrow> string \<Rightarrow> task \<Rightarrow> ('a, 'm, 'e, 'x) state \<Rightarrow>
     exn option \<times> ('a, 'm, 'e, 'x) state" where
  "do_task env kw pfx t st =
     (case select_matrix env kw t st of
        (Inl e, st1) \<Rightarrow> (Some e, st1)
      | (Inr (matrix, suffix), st1) \<Rightarrow>
          (case write_text env kw pfx matrix suffix st1 of
             (Some e, st2) \<Rightarrow> (Some e, st2)
           | (None, st2) \<Rightarrow> save_figure env kw pfx matrix suffix st2))"

text \<open>The loop of line 145: an exception ends it.\<close>

fun run_todo ::
  "('a, 'm, 'e, 'x) collab \<Rightarrow> 'x kwargs \<Rightarrow> string \<Rightarrow> task list \<Rightarrow> ('a, 'm, 'e, 'x) state \<Rightarrow>
     exn option \<times> ('a, 'm, 'e, 'x) state" where
  "run_todo env kw pfx [] st = (None, st)"
| "run_todo env kw pfx (t # ts) st =
     (case do_task env kw pfx t st of
        (Some e, st1) \<Rightarrow> (Some e, st1)
      | (None, st1) \<Rightarrow> run_todo env kw pfx ts st1)"

subsection \<open>The function (lines 111 to 186)\<close>

text \<open>
  \<open>evol_coevol env kw settings file\<close> returns the exception that ended the call, if
  any, and the settings and the trace at that moment.
\<close>

definition evol_coevol ::
  "('a, 'm, 'e, 'x) collab \<Rightarrow> 'x kwargs \<Rightarrow> (string \<rightharpoonup> pyval) \<Rightarrow> string \<Rightarrow>
     exn option \<times> ('a, 'm, 'x) world" where
  "evol_coevol env kw settings file =
     (let pfx = out_prefix kw file;
          w1 = emit (CallParseMSA file) \<lparr>SETTINGS = settings, trace = []\<rparr>
      in case parseMSA env file of
           Inl e \<Rightarrow> (Some e, w1)
         | Inr a \<Rightarrow>
             (let w2 = emit (CallBuildMutinfo a False) w1
              in case buildMutinfoMatrix env a False kw of
                   Inl e \<Rightarrow> (Some e, w2)
                 | Inr m \<Rightarrow>
                     (let fmt = kw_get (numformat kw) (Some ''%12g'');
                          w3 = emit (WriteArray (pfx @ ''.txt'') m fmt) w2
                      in case writeArray env (pfx @ ''.txt'') m fmt of
                           Some e \<Rightarrow> (Some e, w3)
                         | None \<Rightarrow>
                             (case run_todo env kw pfx (todo kw)
                                     \<lparr>SETTINGS = SETTINGS w3, trace = trace w3,
                                      msa = a, mutinfo = m, entropy = None\<rparr> of
                                (r, st) \<Rightarrow>
                                  (r, \<lparr>SETTINGS = SETTINGS st, trace = trace st\<rparr>)))))"

subsection \<open>The default prefix as the specification words it\<close>

text \<open>
  The specification derives the default prefix by \<^emph>\<open>stripping a trailing \<^verbatim>\<open>.gz\<close>,
  then the remaining extension, appending \<^verbatim>\<open>_mutinfo\<close>\<close>. \<open>strip_gz\<close> removes the
  three characters \<^verbatim>\<open>.gz\<close> from the end of a name that ends with them, and
  \<open>prefix_as_stated\<close> follows the sentence; they are compared with \<open>default_prefix\<close>
  below.
\<close>

definition strip_gz :: "string \<Rightarrow> string" where
  "strip_gz file =
     (if drop (length file - 3) file = ''.gz'' then take (length file - 3) file else file)"

definition prefix_as_stated :: "string \<Rightarrow> string" where
  "prefix_as_stated file = fst (splitext (strip_gz file)) @ ''_mutinfo''"

subsection \<open>Observations on tasks and traces\<close>

text \<open>The suffix that lines 148, 152, 158 and 162 give to a task.\<close>

fun suffix_of :: "task \<Rightarrow> string" where
  "suffix_of Base = ''''"
| "suffix_of (Norm which) = (if which = ''joint'' then ''_norm_joint'' else ''_norm_'' @ which)"
| "suffix_of (Corr which) = (if which = ''joint'' then ''_norm_joint'' else ''_corr_'' @ which)"

text \<open>The tasks that take the branch of line 149.\<close>

fun is_joint :: "task \<Rightarrow> bool" where
  "is_joint Base = False"
| "is_joint (Norm which) = (which = ''joint'')"
| "is_joint (Corr which) = (which = ''joint'')"

text \<open>
  The files of the \<^verbatim>\<open>writeArray\<close> calls of a trace, the files and formats of its
  \<^verbatim>\<open>savefig\<close> calls, and the number of its calls of \<^verbatim>\<open>buildMutinfoMatrix\<close> with
  \<^verbatim>\<open>norm=True\<close>, all in the order of the trace.
\<close>

fun text_files :: "('a, 'm, 'x) event list \<Rightarrow> string list" where
  "text_files [] = []"
| "text_files (WriteArray f m fmt # tr) = f # text_files tr"
| "text_files (_ # tr) = text_files tr"

fun figure_files :: "('a, 'm, 'x) event list \<Rightarrow> (string \<times> string) list" where
  "figure_files [] = []"
| "figure_files (SaveFig f fmt dpi # tr) = (f, fmt) # figure_files tr"
| "figure_files (_ # tr) = figure_files tr"

fun joint_builds :: "('a, 'm, 'x) event list \<Rightarrow> nat" where
  "joint_builds [] = 0"
| "joint_builds (CallBuildMutinfo a n # tr) = (if n then Suc (joint_builds tr) else joint_builds tr)"
| "joint_builds (_ # tr) = joint_builds tr"

text \<open>
  The tasks that reach line 155, the normalizations other than \<^verbatim>\<open>joint\<close>, and the
  number of calls of \<^verbatim>\<open>calcShannonEntropy\<close> in a trace.
\<close>

fun needs_entropy :: "task \<Rightarrow> bool" where
  "needs_entropy Base = False"
| "needs_entropy (Norm which) = (which \<noteq> ''joint'')"
| "needs_entropy (Corr which) = False"

fun entropy_calls :: "('a, 'm, 'x) event list \<Rightarrow> nat" where
  "entropy_calls [] = 0"
| "entropy_calls (CallShannonEntropy a # tr) = Suc (entropy_calls tr)"
| "entropy_calls (_ # tr) = entropy_calls tr"

text \<open>The number of warnings of line 171 in a trace.\<close>

fun warnings :: "('a, 'm, 'x) event list \<Rightarrow> nat" where
  "warnings [] = 0"
| "warnings (WarnNoMatplotlib # tr) = Suc (warnings tr)"
| "warnings (_ # tr) = warnings tr"

subsection \<open>Concrete inputs\<close>

text \<open>
  Collaborators that always succeed, on alignments and matrices that are strings; no
  keyword argument at all; and the options
  \<^verbatim>\<open>-m joint -m minent -c apc\<close>.
\<close>

definition stub :: "(string, string, nat, nat) collab" where
  "stub =
     \<lparr>parseMSA = (\<lambda>file. Inr (''msa of '' @ file)),
      buildMutinfoMatrix = (\<lambda>a n kw. Inr (if n then ''joint'' else ''mutinfo'')),
      calcShannonEntropy = (\<lambda>a kw. Inr 7),
      applyMutinfoNorm = (\<lambda>m en which. Inr (m @ '' by '' @ which)),
      applyMutinfoCorr = (\<lambda>m which. Inr (m @ '' minus '' @ which)),
      writeArray = (\<lambda>file m fmt. None),
      import_pyplot = None,
      plt_figure = (\<lambda>width height. None),
      showMutinfoMatrix = (\<lambda>m args a. None),
      savefig = (\<lambda>file fmt dpi. None)\<rparr>"

definition no_kwargs :: "nat kwargs" where
  "no_kwargs =
     \<lparr>ambiguity = Absent, omitgaps = Absent, correction = Absent, normalization = Absent,
      prefix = Absent, numformat = Absent, cmin = Absent, cmax = Absent, figcoevol = Absent,
      figwidth = Absent, figheight = Absent, figargs = Absent, figformat = Absent,
      figdpi = Absent\<rparr>"

definition example_kwargs :: "nat kwargs" where
  "example_kwargs =
     no_kwargs\<lparr>normalization := Given (Some [''joint'', ''minent'']),
               correction := Given (Some [''apc''])\<rparr>"

text \<open>
  All corrections and normalizations, as in the second example of the application's help
  (lines 40 and 41), and \<^verbatim>\<open>-m joint\<close> alone.
\<close>

definition all_kwargs :: "nat kwargs" where
  "all_kwargs =
     no_kwargs\<lparr>correction := Given (Some [''apc'', ''asc'']),
               normalization :=
                 Given (Some [''sument'', ''minent'', ''maxent'', ''mincon'', ''maxcon'', ''joint''])\<rparr>"

definition joint_kwargs :: "nat kwargs" where
  "joint_kwargs = no_kwargs\<lparr>normalization := Given (Some [''joint''])\<rparr>"

text \<open>
  Collaborators without a plotting library, collaborators whose import of the plotting
  library raises an exception that is not an \<^verbatim>\<open>ImportError\<close>, and collaborators whose
  \<^verbatim>\<open>savefig\<close> fails; the options \<^verbatim>\<open>-m minent -S\<close>; settings in which \<^verbatim>\<open>auto_show\<close> is on;
  a state of the loop in which the entropy has been computed.
\<close>

definition no_pyplot :: "(string, string, nat, nat) collab" where
  "no_pyplot = stub\<lparr>import_pyplot := Some ImportError\<rparr>"


definition failing_savefig :: "(string, string, nat, nat) collab" where
  "failing_savefig = stub\<lparr>savefig := (\<lambda>file fmt dpi. Some (Raised ''IOError''))\<rparr>"

definition plot_kwargs :: "nat kwargs" where
  "plot_kwargs =
     no_kwargs\<lparr>normalization := Given (Some [''minent'']), figcoevol := Given (Some True)\<rparr>"

definition shown :: "string \<rightharpoonup> pyval" where
  "shown = [''auto_show'' \<mapsto> PyBool True]"

definition state0 :: "(string, string, nat, nat) state" where
  "state0 =
     \<lparr>SETTINGS = shown, trace = [], msa = ''msa'', mutinfo = ''mutinfo'', entropy = Some 7\<rparr>"

section \<open>Properties\<close>

subsection \<open>Traces and the planner\<close>

lemma text_files_append [simp]: "text_files (xs @ ys) = text_files xs @ text_files ys"
  by (induction xs rule: text_files.induct) auto

lemma figure_files_append [simp]: "figure_files (xs @ ys) = figure_files xs @ figure_files ys"
  by (induction xs rule: figure_files.induct) auto

lemma joint_builds_append [simp]: "joint_builds (xs @ ys) = joint_builds xs + joint_builds ys"
  by (induction xs rule: joint_builds.induct) auto

lemma trace_emit [simp]: "trace (emit ev w) = trace w @ [ev]"
  by (simp add: emit_def)

lemma emit_fields [simp]:
  "SETTINGS (emit ev w) = SETTINGS w" "msa (emit ev st) = msa st"
  "mutinfo (emit ev st) = mutinfo st" "entropy (emit ev st) = entropy st"
  by (simp_all add: emit_def)

lemma norm_loop_eq: "norm_loop ns acc = acc @ map Norm (filter (\<lambda>w. w \<noteq> ''join'') ns)"
  by (induction ns arbitrary: acc) auto

lemma corr_loop_eq: "corr_loop cs acc = acc @ map Corr cs"
  by (induction cs arbitrary: acc) auto

lemma plan_eq:
  "plan nrm crr =
     Base # (case nrm of None \<Rightarrow> []
             | Some ns \<Rightarrow> (if ''joint'' \<in> set ns then [Norm ''joint''] else []) @
                 map Norm (filter (\<lambda>w. w \<noteq> ''join'') ns)) @
     (case crr of None \<Rightarrow> [] | Some cs \<Rightarrow> map Corr cs)"
  by (simp add: plan_def norm_loop_eq corr_loop_eq split: option.splits)

lemmas task_defs = do_task_def write_text_def save_figure_def joint_matrix_def norm_matrix_def
  corr_matrix_def get_entropy_def Let_def

lemmas task_splits = if_splits sum.splits option.splits prod.splits

lemma do_task_text:
  "do_task env kw pfx t st = (None, st') \<Longrightarrow>
   text_files (trace st') = text_files (trace st) @ [pfx @ suffix_of t @ ''.txt'']"
  by (cases t) (auto simp: task_defs split: task_splits)

lemma do_task_joint_builds:
  "do_task env kw pfx t st = (None, st') \<Longrightarrow>
   joint_builds (trace st') = joint_builds (trace st) + (if is_joint t then 1 else 0)"
  by (cases t) (auto simp: task_defs split: task_splits)

lemma run_todo_text:
  "run_todo env kw pfx ts st = (None, st') \<Longrightarrow>
   text_files (trace st') = text_files (trace st) @ map (\<lambda>t. pfx @ suffix_of t @ ''.txt'') ts"
proof (induction ts arbitrary: st)
  case Nil
  then show ?case by simp
next
  case (Cons t ts)
  then show ?case
    by (auto split: prod.splits option.splits dest!: do_task_text)
qed

lemma run_todo_joint_builds:
  "run_todo env kw pfx ts st = (None, st') \<Longrightarrow>
   joint_builds (trace st') = joint_builds (trace st) + length (filter is_joint ts)"
proof (induction ts arbitrary: st)
  case Nil
  then show ?case by simp
next
  case (Cons t ts)
  then show ?case
    by (auto split: prod.splits option.splits dest!: do_task_joint_builds)
qed


lemma evol_coevol_cases:
  obtains
    (parse_fails) e where "parseMSA env file = Inl e"
      and "evol_coevol env kw s0 file = (Some e, \<lparr>SETTINGS = s0, trace = [CallParseMSA file]\<rparr>)"
  | (build_fails) a e where "parseMSA env file = Inr a"
      and "buildMutinfoMatrix env a False kw = Inl e"
      and "evol_coevol env kw s0 file =
             (Some e, \<lparr>SETTINGS = s0, trace = [CallParseMSA file, CallBuildMutinfo a False]\<rparr>)"
  | (write_fails) a m e where "parseMSA env file = Inr a"
      and "buildMutinfoMatrix env a False kw = Inr m"
      and "writeArray env (out_prefix kw file @ ''.txt'') m (kw_get (numformat kw) (Some ''%12g'')) = Some e"
      and "evol_coevol env kw s0 file =
             (Some e, \<lparr>SETTINGS = s0, trace = [CallParseMSA file, CallBuildMutinfo a False,
                WriteArray (out_prefix kw file @ ''.txt'') m (kw_get (numformat kw) (Some ''%12g''))]\<rparr>)"
  | (looped) a m r st' where "parseMSA env file = Inr a"
      and "buildMutinfoMatrix env a False kw = Inr m"
      and "writeArray env (out_prefix kw file @ ''.txt'') m (kw_get (numformat kw) (Some ''%12g'')) = None"
      and "run_todo env kw (out_prefix kw file) (todo kw)
             \<lparr>SETTINGS = s0, trace = [CallParseMSA file, CallBuildMutinfo a False,
                WriteArray (out_prefix kw file @ ''.txt'') m (kw_get (numformat kw) (Some ''%12g''))],
              msa = a, mutinfo = m, entropy = None\<rparr> = (r, st')"
      and "evol_coevol env kw s0 file = (r, \<lparr>SETTINGS = SETTINGS st', trace = trace st'\<rparr>)"
proof (cases "parseMSA env file")
  case (Inl e)
  then show ?thesis
    using parse_fails by (simp add: evol_coevol_def emit_def)
next
  case a: (Inr a)
  show ?thesis
  proof (cases "buildMutinfoMatrix env a False kw")
    case (Inl e)
    then show ?thesis
      using a build_fails by (simp add: evol_coevol_def emit_def)
  next
    case m: (Inr m)
    show ?thesis
    proof (cases "writeArray env (out_prefix kw file @ ''.txt'') m (kw_get (numformat kw) (Some ''%12g''))")
      case (Some e)
      then show ?thesis
        using a m write_fails by (simp add: evol_coevol_def emit_def)
    next
      case None
      obtain r st' where
        "run_todo env kw (out_prefix kw file) (todo kw)
             \<lparr>SETTINGS = s0, trace = [CallParseMSA file, CallBuildMutinfo a False,
                WriteArray (out_prefix kw file @ ''.txt'') m (kw_get (numformat kw) (Some ''%12g''))],
              msa = a, mutinfo = m, entropy = None\<rparr> = (r, st')"
        by (cases "run_todo env kw (out_prefix kw file) (todo kw)
             \<lparr>SETTINGS = s0, trace = [CallParseMSA file, CallBuildMutinfo a False,
                WriteArray (out_prefix kw file @ ''.txt'') m (kw_get (numformat kw) (Some ''%12g''))],
              msa = a, mutinfo = m, entropy = None\<rparr>") auto
      then show ?thesis
        using a m None looped by (simp add: evol_coevol_def emit_def)
    qed
  qed
qed

lemma evol_coevol_text:
  assumes "fst (evol_coevol env kw s0 file) = None"
  shows "text_files (trace (snd (evol_coevol env kw s0 file))) =
           (out_prefix kw file @ ''.txt'') #
           map (\<lambda>t. out_prefix kw file @ suffix_of t @ ''.txt'') (todo kw)"
proof (cases rule: evol_coevol_cases [of env "file" kw s0])
  case (looped a m r st')
  with assms have "r = None" by simp
  with looped show ?thesis
    by (auto dest!: run_todo_text)
qed (use assms in auto)

lemma evol_coevol_joint_builds:
  assumes "fst (evol_coevol env kw s0 file) = None"
  shows "joint_builds (trace (snd (evol_coevol env kw s0 file))) = length (filter is_joint (todo kw))"
proof (cases rule: evol_coevol_cases [of env "file" kw s0])
  case (looped a m r st')
  with assms have "r = None" by simp
  with looped show ?thesis
    by (auto dest!: run_todo_joint_builds)
qed (use assms in auto)

lemma count_list_map_path:
  "count_list (map (\<lambda>t. p @ suffix_of t @ ''.txt'') ts) (p @ s @ ''.txt'') =
     length (filter (\<lambda>t. suffix_of t = s) ts)"
  by (induction ts) auto

lemma suffix_joint_iff: "suffix_of t = ''_norm_joint'' \<longleftrightarrow> is_joint t"
  by (cases t) auto

lemma suffix_empty_iff: "suffix_of t = '''' \<longleftrightarrow> t = Base"
  by (cases t) auto


lemma count_list_map_inj: "inj f \<Longrightarrow> count_list (map f xs) (f x) = count_list xs x"
  by (induction xs) (auto dest: injD)

lemma count_list_filter_keep: "P x \<Longrightarrow> count_list (filter P xs) x = count_list xs x"
  by (induction xs) auto

lemma count_list_le_filter: "P x \<Longrightarrow> count_list xs x \<le> length (filter P xs)"
  by (induction xs) auto

lemma count_Norm_Corr: "count_list (map Corr cs) (Norm w) = 0"
  by (induction cs) auto

lemma todo_eq:
  "todo kw =
     Base # (case kw_get (normalization kw) (Some []) of None \<Rightarrow> []
             | Some ns \<Rightarrow> (if ''joint'' \<in> set ns then [Norm ''joint''] else []) @
                 map Norm (filter (\<lambda>w. w \<noteq> ''join'') ns)) @
     (case kw_get (correction kw) (Some []) of None \<Rightarrow> [] | Some cs \<Rightarrow> map Corr cs)"
  by (simp add: todo_def plan_eq)

lemmas run_defs = evol_coevol_def todo_def plan_def out_prefix_def default_prefix_def
  splitext_def rfind_def lower_def lower_char_def task_defs emit_def

subsection \<open>Planning\<close>

text \<open>
  C1. When the requested normalizations contain \<^verbatim>\<open>joint\<close>, wherever it stands, the
  planned list starts with the base task and \<^verbatim>\<open>('norm', 'joint')\<close>, and the general
  iteration emits \<^verbatim>\<open>('norm', 'joint')\<close> once more at the place where \<^verbatim>\<open>joint\<close>
  stands in the input: the list holds the task once more than the input holds the name.
  A run that completes therefore computes the jointly normalized matrix at least twice and
  writes its file at least twice.
\<close>

theorem joint_first_and_again:
  assumes n: "kw_get (normalization kw) (Some []) = Some ns" and j: "''joint'' \<in> set ns"
  shows "(\<exists>pre post. ns = pre @ ''joint'' # post \<and> ''joint'' \<notin> set pre \<and>
            todo kw = Base # Norm ''joint'' #
              map Norm (filter (\<lambda>w. w \<noteq> ''join'') pre) @
              Norm ''joint'' # map Norm (filter (\<lambda>w. w \<noteq> ''join'') post) @
              (case kw_get (correction kw) (Some []) of None \<Rightarrow> [] | Some cs \<Rightarrow> map Corr cs)) \<and>
         count_list (todo kw) (Norm ''joint'') = Suc (count_list ns ''joint'') \<and>
         (fst (evol_coevol env kw s0 file) = None \<longrightarrow>
            2 \<le> joint_builds (trace (snd (evol_coevol env kw s0 file))) \<and>
            2 \<le> count_list (text_files (trace (snd (evol_coevol env kw s0 file))))
                   (out_prefix kw file @ ''_norm_joint.txt''))"
proof (intro conjI impI)
  from j obtain pre post where ns: "ns = pre @ ''joint'' # post" and pre: "''joint'' \<notin> set pre"
    by (auto dest: split_list_first)
  have "todo kw = Base # Norm ''joint'' #
              map Norm (filter (\<lambda>w. w \<noteq> ''join'') pre) @
              Norm ''joint'' # map Norm (filter (\<lambda>w. w \<noteq> ''join'') post) @
              (case kw_get (correction kw) (Some []) of None \<Rightarrow> [] | Some cs \<Rightarrow> map Corr cs)"
    by (simp add: todo_eq n ns)
  with ns pre show "\<exists>pre post. ns = pre @ ''joint'' # post \<and> ''joint'' \<notin> set pre \<and>
            todo kw = Base # Norm ''joint'' #
              map Norm (filter (\<lambda>w. w \<noteq> ''join'') pre) @
              Norm ''joint'' # map Norm (filter (\<lambda>w. w \<noteq> ''join'') post) @
              (case kw_get (correction kw) (Some []) of None \<Rightarrow> [] | Some cs \<Rightarrow> map Corr cs)"
    by blast
next
  have "inj Norm" by (simp add: inj_def)
  then have "count_list (map Norm (filter (\<lambda>w. w \<noteq> ''join'') ns)) (Norm ''joint'') =
        count_list ns ''joint''"
    by (simp add: count_list_map_inj count_list_filter_keep)
  then show cnt: "count_list (todo kw) (Norm ''joint'') = Suc (count_list ns ''joint'')"
    using j by (simp add: todo_eq n count_Norm_Corr split: option.splits)
  have "count_list ns ''joint'' \<noteq> 0"
    using j by (simp add: count_list_0_iff)
  with cnt have two: "2 \<le> count_list (todo kw) (Norm ''joint'')" by simp
  assume ok: "fst (evol_coevol env kw s0 file) = None"
  have "count_list (todo kw) (Norm ''joint'') \<le> length (filter is_joint (todo kw))"
    by (rule count_list_le_filter) simp
  with two show "2 \<le> joint_builds (trace (snd (evol_coevol env kw s0 file)))"
    by (simp add: evol_coevol_joint_builds [OF ok])
  have "count_list (todo kw) (Norm ''joint'') \<le>
          length (filter (\<lambda>t. suffix_of t = ''_norm_joint'') (todo kw))"
    by (rule count_list_le_filter) simp
  with two show "2 \<le> count_list (text_files (trace (snd (evol_coevol env kw s0 file))))
                   (out_prefix kw file @ ''_norm_joint.txt'')"
    using count_list_map_path [of "out_prefix kw file" "todo kw" "''_norm_joint''"]
    by (simp add: evol_coevol_text [OF ok])
qed


theorem joint_first_and_again_witness:
  "kw_get (normalization example_kwargs) (Some []) = Some [''joint'', ''minent''] \<and>
   ''joint'' \<in> set [''joint'', ''minent''] \<and>
   fst (evol_coevol stub example_kwargs Map.empty ''piwi_refined.slx'') = None \<and>
   count_list (todo example_kwargs) (Norm ''joint'') = 2 \<and>
   2 \<le> joint_builds (trace (snd (evol_coevol stub example_kwargs Map.empty ''piwi_refined.slx''))) \<and>
   2 \<le> count_list
         (text_files (trace (snd (evol_coevol stub example_kwargs Map.empty ''piwi_refined.slx''))))
         (out_prefix example_kwargs ''piwi_refined.slx'' @ ''_norm_joint.txt'')"
proof -
  have h1: "kw_get (normalization example_kwargs) (Some []) = Some [''joint'', ''minent'']"
    by (simp add: example_kwargs_def no_kwargs_def)
  have h2: "''joint'' \<in> set [''joint'', ''minent'']"
    by simp
  have h3: "fst (evol_coevol stub example_kwargs Map.empty ''piwi_refined.slx'') = None"
    by (simp add: run_defs stub_def example_kwargs_def no_kwargs_def)
  note th = joint_first_and_again [OF h1 h2, of stub Map.empty "''piwi_refined.slx''"]
  from th have c: "count_list (todo example_kwargs) (Norm ''joint'') =
      Suc (count_list [''joint'', ''minent''] ''joint'')"
    by blast
  from th h3 have r:
    "2 \<le> joint_builds (trace (snd (evol_coevol stub example_kwargs Map.empty ''piwi_refined.slx''))) \<and>
     2 \<le> count_list
         (text_files (trace (snd (evol_coevol stub example_kwargs Map.empty ''piwi_refined.slx''))))
         (out_prefix example_kwargs ''piwi_refined.slx'' @ ''_norm_joint.txt'')"
    by blast
  from c have c': "count_list (todo example_kwargs) (Norm ''joint'') = 2"
    by simp
  show ?thesis
    using h1 h2 h3 c' r by blast
qed

text \<open>
  C2. For \<^verbatim>\<open>normalization = ['joint', 'minent']\<close> and \<^verbatim>\<open>correction = ['apc']\<close>
  the claimed plan is base, joint, minent, apc. The code plans five tasks,
  \<^verbatim>\<open>('norm', 'joint')\<close> twice, because line 138 skips \<^verbatim>\<open>'join'\<close> and not
  \<^verbatim>\<open>'joint'\<close>; the run writes the base file twice and the joint file twice.
\<close>

theorem example_plan_has_five_tasks:
  "todo example_kwargs = [Base, Norm ''joint'', Norm ''joint'', Norm ''minent'', Corr ''apc''] \<and>
   todo example_kwargs \<noteq> [Base, Norm ''joint'', Norm ''minent'', Corr ''apc''] \<and>
   fst (evol_coevol stub example_kwargs Map.empty ''piwi_refined.slx'') = None \<and>
   text_files (trace (snd (evol_coevol stub example_kwargs Map.empty ''piwi_refined.slx''))) =
     [''piwi_refined_mutinfo.txt'', ''piwi_refined_mutinfo.txt'',
      ''piwi_refined_mutinfo_norm_joint.txt'', ''piwi_refined_mutinfo_norm_joint.txt'',
      ''piwi_refined_mutinfo_norm_minent.txt'', ''piwi_refined_mutinfo_corr_apc.txt'']"
  by (simp add: run_defs stub_def example_kwargs_def no_kwargs_def)

subsection \<open>Text files\<close>

lemma base_once: "length (filter (\<lambda>t. suffix_of t = '''') (todo kw)) = 1"
  by (simp add: todo_eq suffix_empty_iff filter_map comp_def split: option.splits)

text \<open>
  C3, as amended. A run that completes writes the base matrix to
  \<^verbatim>\<open>prefix + '.txt'\<close> before the loop (line 128) and then writes, for each planned
  task in order, one file \<^verbatim>\<open>prefix + suffix + '.txt'\<close> (line 164). There is one write
  more than there are tasks, and the base file is written exactly twice, since the first
  task is the base task with the empty suffix.
\<close>

theorem text_writes_of_completed_run:
  assumes "fst (evol_coevol env kw s0 file) = None"
  shows "text_files (trace (snd (evol_coevol env kw s0 file))) =
           (out_prefix kw file @ ''.txt'') #
           map (\<lambda>t. out_prefix kw file @ suffix_of t @ ''.txt'') (todo kw) \<and>
         length (text_files (trace (snd (evol_coevol env kw s0 file)))) = Suc (length (todo kw)) \<and>
         count_list (text_files (trace (snd (evol_coevol env kw s0 file))))
           (out_prefix kw file @ ''.txt'') = 2"
proof -
  have "count_list (map (\<lambda>t. out_prefix kw file @ suffix_of t @ ''.txt'') (todo kw))
          (out_prefix kw file @ ''.txt'') = 1"
    using count_list_map_path [of "out_prefix kw file" "todo kw" "''''"] base_once [of kw]
    by simp
  then show ?thesis
    by (simp add: evol_coevol_text [OF assms])
qed

theorem text_writes_of_completed_run_witness:
  "fst (evol_coevol stub example_kwargs Map.empty ''piwi_refined.slx'') = None \<and>
   length (text_files (trace (snd (evol_coevol stub example_kwargs Map.empty ''piwi_refined.slx'')))) = 6 \<and>
   count_list (text_files (trace (snd (evol_coevol stub example_kwargs Map.empty ''piwi_refined.slx''))))
     ''piwi_refined_mutinfo.txt'' = 2"
proof -
  have h: "fst (evol_coevol stub example_kwargs Map.empty ''piwi_refined.slx'') = None"
    by (simp add: run_defs stub_def example_kwargs_def no_kwargs_def)
  have t: "length (todo example_kwargs) = 5"
    by (simp add: todo_def plan_def example_kwargs_def no_kwargs_def)
  have p: "out_prefix example_kwargs ''piwi_refined.slx'' = ''piwi_refined_mutinfo''"
    by (simp add: run_defs example_kwargs_def no_kwargs_def)
  note th = text_writes_of_completed_run [OF h]
  from th have "length (text_files (trace (snd (evol_coevol stub example_kwargs Map.empty
      ''piwi_refined.slx'')))) = Suc (length (todo example_kwargs))"
    by blast
  with t have l: "length (text_files (trace (snd (evol_coevol stub example_kwargs Map.empty
      ''piwi_refined.slx'')))) = 6"
    by simp
  from th have "count_list (text_files (trace (snd (evol_coevol stub example_kwargs Map.empty
      ''piwi_refined.slx'')))) (out_prefix example_kwargs ''piwi_refined.slx'' @ ''.txt'') = 2"
    by blast
  with p have c: "count_list (text_files (trace (snd (evol_coevol stub example_kwargs Map.empty
      ''piwi_refined.slx'')))) ''piwi_refined_mutinfo.txt'' = 2"
    by simp
  from h l c show ?thesis
    by blast
qed

text \<open>
  The claim C3 as it stands, one write per planned task and the base file written once,
  fails for a run without any option: one task, two writes of the base file.
\<close>

theorem base_file_written_twice:
  "fst (evol_coevol stub no_kwargs Map.empty ''piwi_refined.slx'') = None \<and>
   todo no_kwargs = [Base] \<and>
   text_files (trace (snd (evol_coevol stub no_kwargs Map.empty ''piwi_refined.slx''))) =
     [''piwi_refined_mutinfo.txt'', ''piwi_refined_mutinfo.txt''] \<and>
   length (text_files (trace (snd (evol_coevol stub no_kwargs Map.empty ''piwi_refined.slx'')))) \<noteq>
     length (todo no_kwargs) \<and>
   count_list (text_files (trace (snd (evol_coevol stub no_kwargs Map.empty ''piwi_refined.slx''))))
     ''piwi_refined_mutinfo.txt'' \<noteq> 1"
  by (simp add: run_defs stub_def no_kwargs_def)

subsection \<open>The value join\<close>

lemma do_task_text_any:
  "do_task env kw pfx t st = (r, st') \<Longrightarrow>
   set (text_files (trace st')) \<subseteq> insert (pfx @ suffix_of t @ ''.txt'') (set (text_files (trace st)))"
  by (cases t) (auto simp: task_defs split: task_splits)

lemma do_task_figure_any:
  "do_task env kw pfx t st = (r, st') \<Longrightarrow> (f, fmt) \<in> set (figure_files (trace st')) \<Longrightarrow>
   (f, fmt) \<in> set (figure_files (trace st)) \<or> f = pfx @ suffix_of t @ ''.'' @ fmt"
  by (cases t) (auto simp: task_defs split: task_splits)

lemma run_todo_text_any:
  "run_todo env kw pfx ts st = (r, st') \<Longrightarrow> f \<in> set (text_files (trace st')) \<Longrightarrow>
   f \<in> set (text_files (trace st)) \<or> (\<exists>t\<in>set ts. f = pfx @ suffix_of t @ ''.txt'')"
proof (induction ts arbitrary: st)
  case Nil
  then show ?case by simp
next
  case (Cons t ts)
  obtain r1 st1 where d: "do_task env kw pfx t st = (r1, st1)"
    by (cases "do_task env kw pfx t st") auto
  show ?case
  proof (cases r1)
    case None
    with Cons.prems d have "run_todo env kw pfx ts st1 = (r, st')" by simp
    from Cons.IH [OF this Cons.prems(2)] do_task_text_any [OF d] show ?thesis
      by auto
  next
    case (Some e)
    with Cons.prems d have "st' = st1" by simp
    with Cons.prems(2) do_task_text_any [OF d] show ?thesis
      by auto
  qed
qed

lemma run_todo_figure_any:
  "run_todo env kw pfx ts st = (r, st') \<Longrightarrow> (f, fmt) \<in> set (figure_files (trace st')) \<Longrightarrow>
   (f, fmt) \<in> set (figure_files (trace st)) \<or> (\<exists>t\<in>set ts. f = pfx @ suffix_of t @ ''.'' @ fmt)"
proof (induction ts arbitrary: st)
  case Nil
  then show ?case by simp
next
  case (Cons t ts)
  obtain r1 st1 where d: "do_task env kw pfx t st = (r1, st1)"
    by (cases "do_task env kw pfx t st") auto
  show ?case
  proof (cases r1)
    case None
    with Cons.prems d have "run_todo env kw pfx ts st1 = (r, st')" by simp
    from Cons.IH [OF this Cons.prems(2)] do_task_figure_any [OF d] show ?thesis
      by auto
  next
    case (Some e)
    with Cons.prems d have "st' = st1" by simp
    with Cons.prems(2) do_task_figure_any [OF d] show ?thesis
      by auto
  qed
qed

lemma suffix_join_iff: "suffix_of t = ''_norm_join'' \<longleftrightarrow> t = Norm ''join''"
  by (cases t) auto

lemma no_join_task: "Norm ''join'' \<notin> set (todo kw)"
  by (auto simp: todo_eq split: option.splits if_splits)

lemma evol_coevol_text_any:
  assumes "f \<in> set (text_files (trace (snd (evol_coevol env kw s0 file))))"
  shows "f = out_prefix kw file @ ''.txt'' \<or>
         (\<exists>t\<in>set (todo kw). f = out_prefix kw file @ suffix_of t @ ''.txt'')"
proof (cases rule: evol_coevol_cases [of env "file" kw s0])
  case (looped a m r st')
  with assms run_todo_text_any [OF looped(4), of f] show ?thesis
    by auto
qed (use assms in auto)

lemma evol_coevol_figure_any:
  assumes "(f, fmt) \<in> set (figure_files (trace (snd (evol_coevol env kw s0 file))))"
  shows "\<exists>t\<in>set (todo kw). f = out_prefix kw file @ suffix_of t @ ''.'' @ fmt"
proof (cases rule: evol_coevol_cases [of env "file" kw s0])
  case (looped a m r st')
  with assms run_todo_figure_any [OF looped(4), of f fmt] show ?thesis
    by auto
qed (use assms in auto)

text \<open>
  C6. The planner skips every \<^verbatim>\<open>'join'\<close> among the normalizations: no task
  \<^verbatim>\<open>('norm', 'join')\<close> is planned, the plan is the plan of the input without its
  \<^verbatim>\<open>'join'\<close> entries, and no run, completed or not, writes the text file
  \<^verbatim>\<open>prefix + '_norm_join.txt'\<close> or saves a figure \<^verbatim>\<open>prefix + '_norm_join.' + format\<close>.
  The value \<^verbatim>\<open>'joint'\<close> is treated differently: it is always planned.
\<close>

theorem join_is_skipped:
  "Norm ''join'' \<notin> set (todo kw) \<and>
   plan (Some ns) crr = plan (Some (filter (\<lambda>w. w \<noteq> ''join'') ns)) crr \<and>
   out_prefix kw file @ ''_norm_join'' @ ''.txt''
     \<notin> set (text_files (trace (snd (evol_coevol env kw s0 file)))) \<and>
   (out_prefix kw file @ ''_norm_join'' @ ''.'' @ fmt, fmt)
     \<notin> set (figure_files (trace (snd (evol_coevol env kw s0 file)))) \<and>
   Norm ''joint'' \<in> set (plan (Some (pre @ ''joint'' # post)) crr)"
proof (intro conjI)
  show "Norm ''join'' \<notin> set (todo kw)"
    by (rule no_join_task)
  show "plan (Some ns) crr = plan (Some (filter (\<lambda>w. w \<noteq> ''join'') ns)) crr"
    by (simp add: plan_eq)
  show "out_prefix kw file @ ''_norm_join'' @ ''.txt''
     \<notin> set (text_files (trace (snd (evol_coevol env kw s0 file))))"
  proof
    assume "out_prefix kw file @ ''_norm_join'' @ ''.txt''
      \<in> set (text_files (trace (snd (evol_coevol env kw s0 file))))"
    from evol_coevol_text_any [OF this]
    obtain t where "t \<in> set (todo kw)" "suffix_of t = ''_norm_join''"
      by auto
    then show False
      using no_join_task [of kw] by (simp add: suffix_join_iff)
  qed
  show "(out_prefix kw file @ ''_norm_join'' @ ''.'' @ fmt, fmt)
     \<notin> set (figure_files (trace (snd (evol_coevol env kw s0 file))))"
  proof
    assume "(out_prefix kw file @ ''_norm_join'' @ ''.'' @ fmt, fmt)
      \<in> set (figure_files (trace (snd (evol_coevol env kw s0 file))))"
    from evol_coevol_figure_any [OF this]
    obtain t where t: "t \<in> set (todo kw)"
      and "out_prefix kw file @ ''_norm_join'' @ ''.'' @ fmt =
           out_prefix kw file @ suffix_of t @ ''.'' @ fmt"
      by auto
    then have "''_norm_join'' @ (''.'' @ fmt) = suffix_of t @ (''.'' @ fmt)"
      by (simp only: same_append_eq)
    then have "suffix_of t = ''_norm_join''"
      by (simp only: append_same_eq)
    with t show False
      using no_join_task [of kw] by (simp add: suffix_join_iff)
  qed
  show "Norm ''joint'' \<in> set (plan (Some (pre @ ''joint'' # post)) crr)"
    by (simp add: plan_eq)
qed

subsection \<open>The entropy\<close>

lemma entropy_calls_append [simp]: "entropy_calls (xs @ ys) = entropy_calls xs + entropy_calls ys"
  by (induction xs rule: entropy_calls.induct) auto

lemma do_task_extends:
  "do_task env kw pfx t st = (r, st') \<Longrightarrow> \<exists>evs. trace st' = trace st @ evs"
  by (cases t) (auto simp: task_defs split: task_splits)

lemma do_task_cached:
  "do_task env kw pfx t st = (r, st') \<Longrightarrow> entropy st = Some en \<Longrightarrow>
   entropy_calls (trace st') = entropy_calls (trace st) \<and> entropy st' = Some en"
  by (cases t) (auto simp: task_defs split: task_splits)

lemma do_task_no_need:
  "do_task env kw pfx t st = (r, st') \<Longrightarrow> \<not> needs_entropy t \<Longrightarrow>
   entropy_calls (trace st') = entropy_calls (trace st) \<and> entropy st' = entropy st"
  by (cases t) (auto simp: task_defs split: task_splits)

lemma do_task_fresh:
  "do_task env kw pfx t st = (r, st') \<Longrightarrow> entropy st = None \<Longrightarrow>
   entropy_calls (trace st') \<le> Suc (entropy_calls (trace st)) \<and>
   (r = None \<longrightarrow> entropy st' = None \<longrightarrow> entropy_calls (trace st') = entropy_calls (trace st))"
  by (cases t) (auto simp: task_defs split: task_splits)

lemma do_task_first_need:
  "do_task env kw pfx t st = (None, st') \<Longrightarrow> entropy st = None \<Longrightarrow> needs_entropy t \<Longrightarrow>
   entropy st' \<noteq> None \<and>
   (\<exists>w evs. trace st' = trace st @ InfoNormalization w # CallShannonEntropy (msa st) # evs \<and>
       entropy_calls evs = 0)"
  by (cases t) (auto simp: task_defs split: task_splits)

lemma run_todo_extends:
  "run_todo env kw pfx ts st = (r, st') \<Longrightarrow> \<exists>evs. trace st' = trace st @ evs"
proof (induction ts arbitrary: st)
  case Nil
  then show ?case by simp
next
  case (Cons t ts)
  obtain r1 st1 where d: "do_task env kw pfx t st = (r1, st1)"
    by (cases "do_task env kw pfx t st") auto
  from do_task_extends [OF d] obtain evs where e: "trace st1 = trace st @ evs" ..
  show ?case
  proof (cases r1)
    case None
    with Cons.prems d have "run_todo env kw pfx ts st1 = (r, st')" by simp
    from Cons.IH [OF this] e show ?thesis by auto
  next
    case (Some e')
    with Cons.prems d e show ?thesis by auto
  qed
qed

lemma run_todo_cached:
  "run_todo env kw pfx ts st = (r, st') \<Longrightarrow> entropy st = Some en \<Longrightarrow>
   entropy_calls (trace st') = entropy_calls (trace st)"
proof (induction ts arbitrary: st)
  case Nil
  then show ?case by simp
next
  case (Cons t ts)
  obtain r1 st1 where d: "do_task env kw pfx t st = (r1, st1)"
    by (cases "do_task env kw pfx t st") auto
  note c = do_task_cached [OF d Cons.prems(2)]
  show ?case
  proof (cases r1)
    case None
    with Cons.prems d have "run_todo env kw pfx ts st1 = (r, st')" by simp
    from Cons.IH [OF this] c show ?thesis by simp
  next
    case (Some e')
    with Cons.prems d c show ?thesis by auto
  qed
qed

lemma run_todo_fresh:
  "run_todo env kw pfx ts st = (r, st') \<Longrightarrow> entropy st = None \<Longrightarrow>
   entropy_calls (trace st') \<le> Suc (entropy_calls (trace st))"
proof (induction ts arbitrary: st)
  case Nil
  then show ?case by simp
next
  case (Cons t ts)
  obtain r1 st1 where d: "do_task env kw pfx t st = (r1, st1)"
    by (cases "do_task env kw pfx t st") auto
  note f = do_task_fresh [OF d Cons.prems(2)]
  show ?case
  proof (cases r1)
    case None
    with Cons.prems d have run: "run_todo env kw pfx ts st1 = (r, st')" by simp
    show ?thesis
    proof (cases "entropy st1")
      case None
      from Cons.IH [OF run None] f \<open>r1 = None\<close> None show ?thesis by simp
    next
      case (Some en)
      from run_todo_cached [OF run Some] f show ?thesis by simp
    qed
  next
    case (Some e')
    with Cons.prems d f show ?thesis by auto
  qed
qed

lemma run_todo_no_need:
  "run_todo env kw pfx ts st = (r, st') \<Longrightarrow> \<forall>t\<in>set ts. \<not> needs_entropy t \<Longrightarrow>
   entropy_calls (trace st') = entropy_calls (trace st) \<and> entropy st' = entropy st"
proof (induction ts arbitrary: st)
  case Nil
  then show ?case by simp
next
  case (Cons t ts)
  obtain r1 st1 where d: "do_task env kw pfx t st = (r1, st1)"
    by (cases "do_task env kw pfx t st") auto
  from Cons.prems(2) have "\<not> needs_entropy t" by simp
  note n = do_task_no_need [OF d this]
  show ?case
  proof (cases r1)
    case None
    with Cons.prems d have run: "run_todo env kw pfx ts st1 = (r, st')" by simp
    from Cons.prems(2) have "\<forall>t\<in>set ts. \<not> needs_entropy t" by simp
    from Cons.IH [OF run this] n show ?thesis by simp
  next
    case (Some e')
    with Cons.prems d n show ?thesis by auto
  qed
qed

lemma do_task_locals:
  "do_task env kw pfx t st = (r, st') \<Longrightarrow> msa st' = msa st \<and> mutinfo st' = mutinfo st"
  by (cases t) (auto simp: task_defs split: task_splits)

lemma run_todo_locals:
  "run_todo env kw pfx ts st = (r, st') \<Longrightarrow> msa st' = msa st \<and> mutinfo st' = mutinfo st"
  by (induction ts arbitrary: st) (auto split: prod.splits option.splits dest: do_task_locals)

lemma run_todo_append:
  "run_todo env kw pfx (ts @ us) st = (None, st') \<Longrightarrow>
   \<exists>st1. run_todo env kw pfx ts st = (None, st1) \<and> run_todo env kw pfx us st1 = (None, st')"
  by (induction ts arbitrary: st) (auto split: prod.splits option.splits)

lemma run_todo_first_need:
  assumes run: "run_todo env kw pfx (pre @ t # post) st = (None, st')"
    and fresh: "entropy st = None"
    and need: "needs_entropy t" and pre: "\<forall>u\<in>set pre. \<not> needs_entropy u"
  shows "\<exists>tr1 tr2. trace st' = trace st @ tr1 @ CallShannonEntropy (msa st) # tr2 \<and>
           entropy_calls tr1 = 0 \<and> entropy_calls tr2 = 0 \<and>
           length (text_files tr1) = length pre"
proof -
  from run_todo_append [OF run] obtain st1 where
    r1: "run_todo env kw pfx pre st = (None, st1)" and
    r2: "run_todo env kw pfx (t # post) st1 = (None, st')"
    by blast
  from r2 obtain st2 where
    d: "do_task env kw pfx t st1 = (None, st2)" and
    r3: "run_todo env kw pfx post st2 = (None, st')"
    by (auto split: prod.splits option.splits)
  from run_todo_extends [OF r1] obtain evs1 where e1: "trace st1 = trace st @ evs1" ..
  from run_todo_no_need [OF r1 pre] e1 fresh
  have c1: "entropy_calls evs1 = 0" and f1: "entropy st1 = None"
    by simp_all
  from run_todo_text [OF r1] e1 have "text_files evs1 = map (\<lambda>t. pfx @ suffix_of t @ ''.txt'') pre"
    by simp
  then have t1: "length (text_files evs1) = length pre"
    by simp
  from run_todo_locals [OF r1] have m1: "msa st1 = msa st" ..
  from do_task_first_need [OF d f1 need] obtain w evs2 en where
    e2: "trace st2 = trace st1 @ InfoNormalization w # CallShannonEntropy (msa st1) # evs2"
    and c2: "entropy_calls evs2 = 0" and f2: "entropy st2 = Some en"
    by auto
  from run_todo_extends [OF r3] obtain evs3 where e3: "trace st' = trace st2 @ evs3" ..
  from run_todo_cached [OF r3 f2] e3 have c3: "entropy_calls evs3 = 0"
    by simp
  have "trace st' = trace st @ (evs1 @ [InfoNormalization w]) @
      CallShannonEntropy (msa st) # (evs2 @ evs3)"
    by (simp add: e1 e2 e3 m1)
  moreover have "entropy_calls (evs1 @ [InfoNormalization w]) = 0"
    by (simp add: c1)
  moreover have "entropy_calls (evs2 @ evs3) = 0"
    by (simp add: c2 c3)
  moreover have "length (text_files (evs1 @ [InfoNormalization w])) = length pre"
    by (simp add: t1)
  ultimately show ?thesis
    by blast
qed


text \<open>
  C5. In every run, completed or not, \<^verbatim>\<open>calcShannonEntropy\<close> is called at most
  once. It is not called when no planned task is a normalization other than
  \<^verbatim>\<open>joint\<close>. In a run that completes and has such a task, it is called exactly once,
  while the first such task is processed: when the call is made, the base file and one file
  for each earlier task have been written, and no file for the task itself.
\<close>

theorem entropy_computed_at_most_once:
  fixes env :: "('a, 'm, 'e, 'x) collab"
  shows
  "entropy_calls (trace (snd (evol_coevol env kw s0 file))) \<le> 1 \<and>
   ((\<forall>t\<in>set (todo kw). \<not> needs_entropy t) \<longrightarrow>
      entropy_calls (trace (snd (evol_coevol env kw s0 file))) = 0) \<and>
   (fst (evol_coevol env kw s0 file) = None \<and> todo kw = pre @ t # post \<and>
    needs_entropy t \<and> (\<forall>u\<in>set pre. \<not> needs_entropy u) \<longrightarrow>
      entropy_calls (trace (snd (evol_coevol env kw s0 file))) = 1 \<and>
      (\<exists>a tr1 tr2. trace (snd (evol_coevol env kw s0 file)) = tr1 @ CallShannonEntropy a # tr2 \<and>
         entropy_calls tr1 = 0 \<and> entropy_calls tr2 = 0 \<and>
         length (text_files tr1) = Suc (length pre)))"
proof (cases rule: evol_coevol_cases [of env "file" kw s0])
  case (looped a m r st')
  let ?st = "\<lparr>SETTINGS = s0, trace = [CallParseMSA file, CallBuildMutinfo a False,
      WriteArray (out_prefix kw file @ ''.txt'') m (kw_get (numformat kw) (Some ''%12g''))],
      msa = a, mutinfo = m, entropy = None :: 'e option\<rparr>"
  note run = looped(4)
  have tr: "trace (snd (evol_coevol env kw s0 file)) = trace st'"
    and res: "fst (evol_coevol env kw s0 file) = r"
    by (simp_all add: looped(5))
  from run_todo_fresh [OF run] have one: "entropy_calls (trace st') \<le> 1"
    by simp
  have none: "entropy_calls (trace st') = 0" if "\<forall>t\<in>set (todo kw). \<not> needs_entropy t"
    using run_todo_no_need [OF run that] by simp
  have first: "entropy_calls (trace st') = 1 \<and>
      (\<exists>a tr1 tr2. trace st' = tr1 @ CallShannonEntropy a # tr2 \<and>
         entropy_calls tr1 = 0 \<and> entropy_calls tr2 = 0 \<and>
         length (text_files tr1) = Suc (length pre))"
    if "r = None" and "todo kw = pre @ t # post" and "needs_entropy t"
      and "\<forall>u\<in>set pre. \<not> needs_entropy u"
  proof -
    from run that(1,2) have "run_todo env kw (out_prefix kw file) (pre @ t # post) ?st = (None, st')"
      by simp
    from run_todo_first_need [OF this _ that(3,4)] obtain tr1 tr2 where
      e: "trace st' = trace ?st @ tr1 @ CallShannonEntropy (msa ?st) # tr2" and
      c: "entropy_calls tr1 = 0" "entropy_calls tr2 = 0" and
      l: "length (text_files tr1) = length pre"
      by auto
    have "trace st' = (trace ?st @ tr1) @ CallShannonEntropy a # tr2"
      using e by simp
    moreover have "entropy_calls (trace ?st @ tr1) = 0"
      using c by simp
    moreover have "length (text_files (trace ?st @ tr1)) = Suc (length pre)"
      using l by simp
    moreover have "entropy_calls (trace st') = 1"
      using e c by simp
    ultimately show ?thesis
      using c(2) by blast
  qed
  from one none first show ?thesis
    unfolding tr res by blast
qed auto


theorem entropy_computed_at_most_once_witness:
  "fst (evol_coevol stub all_kwargs Map.empty ''piwi_refined.slx'') = None \<and>
   todo all_kwargs =
     [Base, Norm ''joint''] @ Norm ''sument'' #
     [Norm ''minent'', Norm ''maxent'', Norm ''mincon'', Norm ''maxcon'', Norm ''joint'',
      Corr ''apc'', Corr ''asc''] \<and>
   needs_entropy (Norm ''sument'') \<and>
   list_all (\<lambda>u. \<not> needs_entropy u) [Base, Norm ''joint''] \<and>
   entropy_calls (trace (snd (evol_coevol stub all_kwargs Map.empty ''piwi_refined.slx''))) = 1 \<and>
   list_all (\<lambda>u. \<not> needs_entropy u) (todo joint_kwargs) \<and>
   entropy_calls (trace (snd (evol_coevol stub joint_kwargs Map.empty ''piwi_refined.slx''))) = 0"
proof -
  have h1: "fst (evol_coevol stub all_kwargs Map.empty ''piwi_refined.slx'') = None"
    by (simp add: run_defs stub_def all_kwargs_def no_kwargs_def)
  have h2: "todo all_kwargs =
     [Base, Norm ''joint''] @ Norm ''sument'' #
     [Norm ''minent'', Norm ''maxent'', Norm ''mincon'', Norm ''maxcon'', Norm ''joint'',
      Corr ''apc'', Corr ''asc'']"
    by (simp add: todo_def plan_def all_kwargs_def no_kwargs_def)
  have h3: "needs_entropy (Norm ''sument'')"
    by simp
  have h4: "\<forall>u\<in>set [Base, Norm ''joint'']. \<not> needs_entropy u"
    by simp
  have h5: "\<forall>u\<in>set (todo joint_kwargs). \<not> needs_entropy u"
    by (simp add: todo_def plan_def joint_kwargs_def no_kwargs_def)
  from entropy_computed_at_most_once [of stub all_kwargs Map.empty "''piwi_refined.slx''"
      "[Base, Norm ''joint'']" "Norm ''sument''"
      "[Norm ''minent'', Norm ''maxent'', Norm ''mincon'', Norm ''maxcon'', Norm ''joint'',
        Corr ''apc'', Corr ''asc'']"] h1 h2 h3 h4
  have c1: "entropy_calls (trace (snd (evol_coevol stub all_kwargs Map.empty ''piwi_refined.slx''))) = 1"
    by blast
  from entropy_computed_at_most_once [of stub joint_kwargs Map.empty "''piwi_refined.slx''"] h5
  have c2: "entropy_calls (trace (snd (evol_coevol stub joint_kwargs Map.empty ''piwi_refined.slx''))) = 0"
    by blast
  from h4 have h4': "list_all (\<lambda>u. \<not> needs_entropy u) [Base, Norm ''joint'']"
    by simp
  from h5 have h5': "list_all (\<lambda>u. \<not> needs_entropy u) (todo joint_kwargs)"
    by (simp add: list_all_iff)
  from h1 h2 h3 h4' c1 h5' c2 show ?thesis
    by blast
qed

subsection \<open>What the loop changes\<close>

lemma warnings_append [simp]: "warnings (xs @ ys) = warnings xs + warnings ys"
  by (induction xs rule: warnings.induct) auto

lemma do_task_settings:
  "do_task env kw pfx t st = (r, st') \<Longrightarrow>
   (SETTINGS st' = SETTINGS st \<or> SETTINGS st' = (SETTINGS st)(''auto_show'' \<mapsto> PyBool False)) \<and>
   (\<not> (truthy (kw_get (figcoevol kw) None) \<and> import_pyplot env = None) \<longrightarrow>
      SETTINGS st' = SETTINGS st)"
  by (cases t) (auto simp: task_defs split: task_splits)

lemma do_task_entropy_kept:
  "do_task env kw pfx t st = (r, st') \<Longrightarrow> entropy st = Some en \<Longrightarrow> entropy st' = Some en"
  by (cases t) (auto simp: task_defs split: task_splits)



lemma auto_show_chain:
  assumes "s1 = s \<or> s1 = s(k \<mapsto> v)" and "s2 = s1 \<or> s2 = s1(k \<mapsto> v)"
  shows "s2 = s \<or> s2 = s(k \<mapsto> v)"
  using assms by auto

lemma run_todo_settings:
  "run_todo env kw pfx ts st = (r, st') \<Longrightarrow>
   SETTINGS st' = SETTINGS st \<or> SETTINGS st' = (SETTINGS st)(''auto_show'' \<mapsto> PyBool False)"
proof (induction ts arbitrary: st)
  case Nil
  then show ?case by simp
next
  case (Cons t ts)
  obtain r1 st1 where d: "do_task env kw pfx t st = (r1, st1)"
    by (cases "do_task env kw pfx t st") auto
  from do_task_settings [OF d]
  have s: "SETTINGS st1 = SETTINGS st \<or> SETTINGS st1 = (SETTINGS st)(''auto_show'' \<mapsto> PyBool False)"
    by (rule conjunct1)
  show ?case
  proof (cases r1)
    case None
    with Cons.prems d have "run_todo env kw pfx ts st1 = (r, st')" by simp
    from auto_show_chain [OF s Cons.IH [OF this]] show ?thesis .
  next
    case (Some e)
    with Cons.prems d have "st' = st1" by simp
    with s show ?thesis by (simp only:)
  qed
qed

lemma run_todo_settings_no_plot:
  "run_todo env kw pfx ts st = (r, st') \<Longrightarrow>
   \<not> (truthy (kw_get (figcoevol kw) None) \<and> import_pyplot env = None) \<Longrightarrow>
   SETTINGS st' = SETTINGS st"
proof (induction ts arbitrary: st)
  case Nil
  then show ?case by simp
next
  case (Cons t ts)
  obtain r1 st1 where d: "do_task env kw pfx t st = (r1, st1)"
    by (cases "do_task env kw pfx t st") auto
  from do_task_settings [OF d] Cons.prems(2)
  have s: "SETTINGS st1 = SETTINGS st"
    by blast
  show ?case
  proof (cases r1)
    case None
    with Cons.prems d have "run_todo env kw pfx ts st1 = (r, st')" by simp
    from Cons.IH [OF this Cons.prems(2)] s show ?thesis by (simp only:)
  next
    case (Some e)
    with Cons.prems d have "st' = st1" by simp
    with s show ?thesis by (simp only:)
  qed
qed

lemma run_todo_entropy_kept:
  "run_todo env kw pfx ts st = (r, st') \<Longrightarrow> entropy st = Some en \<Longrightarrow> entropy st' = Some en"
proof (induction ts arbitrary: st)
  case Nil
  then show ?case by simp
next
  case (Cons t ts)
  obtain r1 st1 where d: "do_task env kw pfx t st = (r1, st1)"
    by (cases "do_task env kw pfx t st") auto
  note s = do_task_entropy_kept [OF d Cons.prems(2)]
  show ?case
  proof (cases r1)
    case None
    with Cons.prems d have "run_todo env kw pfx ts st1 = (r, st')" by simp
    from Cons.IH [OF this s] show ?thesis .
  next
    case (Some e)
    with Cons.prems d have "st' = st1" by simp
    with s show ?thesis by (simp only:)
  qed
qed


text \<open>
  C10, as amended. Whatever tasks the loop processes and however it ends, it leaves the
  alignment and the base matrix as they were, it never replaces an entropy that has been
  computed, and of the package settings it changes at most the entry \<^verbatim>\<open>auto_show\<close>,
  which line 176 sets to \<^verbatim>\<open>False\<close>; the settings are unchanged unless figures are
  requested and the plotting library can be imported. (The keyword arguments are a
  parameter of the loop, which has no statement that assigns to them.)
\<close>

theorem loop_changes_entropy_and_auto_show_only:
  assumes "run_todo env kw pfx ts st = (r, st')"
  shows "msa st' = msa st \<and> mutinfo st' = mutinfo st \<and>
         (\<forall>en. entropy st = Some en \<longrightarrow> entropy st' = Some en) \<and>
         (\<forall>k. k \<noteq> ''auto_show'' \<longrightarrow> SETTINGS st' k = SETTINGS st k) \<and>
         (SETTINGS st' = SETTINGS st \<or>
          SETTINGS st' = (SETTINGS st)(''auto_show'' \<mapsto> PyBool False)) \<and>
         (\<not> (truthy (kw_get (figcoevol kw) None) \<and> import_pyplot env = None) \<longrightarrow>
            SETTINGS st' = SETTINGS st)"
proof (intro conjI allI impI)
  show "msa st' = msa st" and "mutinfo st' = mutinfo st"
    using run_todo_locals [OF assms] by simp_all
  show "entropy st' = Some en" if "entropy st = Some en" for en
    using run_todo_entropy_kept [OF assms that] .
  show s: "SETTINGS st' = SETTINGS st \<or>
      SETTINGS st' = (SETTINGS st)(''auto_show'' \<mapsto> PyBool False)"
    using run_todo_settings [OF assms] .
  show "SETTINGS st' k = SETTINGS st k" if "k \<noteq> ''auto_show''" for k
  proof (rule disjE [OF s])
    assume "SETTINGS st' = SETTINGS st"
    then show ?thesis by (simp only:)
  next
    assume "SETTINGS st' = (SETTINGS st)(''auto_show'' \<mapsto> PyBool False)"
    then show ?thesis using that by (simp only: fun_upd_apply if_False)
  qed
  show "SETTINGS st' = SETTINGS st"
    if "\<not> (truthy (kw_get (figcoevol kw) None) \<and> import_pyplot env = None)"
    using run_todo_settings_no_plot [OF assms that] .
qed


theorem loop_changes_entropy_and_auto_show_only_witness:
  "msa (snd (run_todo stub plot_kwargs ''out'' (todo plot_kwargs) state0)) = msa state0 \<and>
   mutinfo (snd (run_todo stub plot_kwargs ''out'' (todo plot_kwargs) state0)) = mutinfo state0 \<and>
   entropy state0 = Some 7 \<and>
   entropy (snd (run_todo stub plot_kwargs ''out'' (todo plot_kwargs) state0)) = Some 7 \<and>
   ''verbosity'' \<noteq> ''auto_show'' \<and>
   SETTINGS (snd (run_todo stub plot_kwargs ''out'' (todo plot_kwargs) state0)) ''verbosity'' =
     SETTINGS state0 ''verbosity'' \<and>
   import_pyplot no_pyplot \<noteq> None \<and>
   SETTINGS (snd (run_todo no_pyplot plot_kwargs ''out'' (todo plot_kwargs) state0)) =
     SETTINGS state0"
proof -
  have h1: "run_todo stub plot_kwargs ''out'' (todo plot_kwargs) state0 =
      (fst (run_todo stub plot_kwargs ''out'' (todo plot_kwargs) state0),
       snd (run_todo stub plot_kwargs ''out'' (todo plot_kwargs) state0))"
    by (rule prod.collapse [symmetric])
  have h2: "run_todo no_pyplot plot_kwargs ''out'' (todo plot_kwargs) state0 =
      (fst (run_todo no_pyplot plot_kwargs ''out'' (todo plot_kwargs) state0),
       snd (run_todo no_pyplot plot_kwargs ''out'' (todo plot_kwargs) state0))"
    by (rule prod.collapse [symmetric])
  have e: "entropy state0 = Some 7"
    by (simp add: state0_def)
  have k: "''verbosity'' \<noteq> ''auto_show''"
    by simp
  have i: "import_pyplot no_pyplot \<noteq> None"
    by (simp add: no_pyplot_def)
  note t1 = loop_changes_entropy_and_auto_show_only [OF h1]
  note t2 = loop_changes_entropy_and_auto_show_only [OF h2]
  from t1 have a1: "msa (snd (run_todo stub plot_kwargs ''out'' (todo plot_kwargs) state0)) = msa state0"
    by (elim conjE)
  from t1 have a2: "mutinfo (snd (run_todo stub plot_kwargs ''out'' (todo plot_kwargs) state0)) = mutinfo state0"
    by (elim conjE)
  from t1 have "\<forall>en. entropy state0 = Some en \<longrightarrow>
      entropy (snd (run_todo stub plot_kwargs ''out'' (todo plot_kwargs) state0)) = Some en"
    by (elim conjE)
  with e have a3: "entropy (snd (run_todo stub plot_kwargs ''out'' (todo plot_kwargs) state0)) = Some 7"
    by (elim allE impE)
  from t1 have "\<forall>k. k \<noteq> ''auto_show'' \<longrightarrow>
      SETTINGS (snd (run_todo stub plot_kwargs ''out'' (todo plot_kwargs) state0)) k = SETTINGS state0 k"
    by (elim conjE)
  with k have a4: "SETTINGS (snd (run_todo stub plot_kwargs ''out'' (todo plot_kwargs) state0)) ''verbosity'' =
     SETTINGS state0 ''verbosity''"
    by (elim allE impE)
  from t2 have "\<not> (truthy (kw_get (figcoevol plot_kwargs) None) \<and> import_pyplot no_pyplot = None) \<longrightarrow>
      SETTINGS (snd (run_todo no_pyplot plot_kwargs ''out'' (todo plot_kwargs) state0)) = SETTINGS state0"
    by (elim conjE)
  moreover from i have "\<not> (truthy (kw_get (figcoevol plot_kwargs) None) \<and> import_pyplot no_pyplot = None)"
    by (simp only: simp_thms)
  ultimately have a5: "SETTINGS (snd (run_todo no_pyplot plot_kwargs ''out'' (todo plot_kwargs) state0)) =
     SETTINGS state0"
    by (rule mp)
  show ?thesis
    by (intro conjI) (fact a1 a2 e a3 k a4 i a5)+
qed

text \<open>
  The claim C10 as it stands, that the settings are left unchanged by every task, fails
  when a figure is drawn: the base task alone switches \<^verbatim>\<open>auto_show\<close> off.
\<close>

theorem auto_show_is_switched_off:
  "shown ''auto_show'' = Some (PyBool True) \<and>
   fst (evol_coevol stub plot_kwargs shown ''piwi_refined.slx'') = None \<and>
   SETTINGS (snd (evol_coevol stub plot_kwargs shown ''piwi_refined.slx'')) ''auto_show'' =
     Some (PyBool False) \<and>
   SETTINGS (snd (run_todo stub plot_kwargs ''out'' [Base] state0)) ''auto_show'' \<noteq>
     SETTINGS state0 ''auto_show''"
proof (intro conjI)
  show "SETTINGS (snd (run_todo stub plot_kwargs ''out'' [Base] state0)) ''auto_show'' \<noteq>
      SETTINGS state0 ''auto_show''"
    by (simp add: run_defs stub_def plot_kwargs_def no_kwargs_def state0_def shown_def)
qed (simp_all add: run_defs stub_def plot_kwargs_def no_kwargs_def shown_def)

subsection \<open>Figures\<close>

lemma select_matrix_keeps:
  "select_matrix env kw t st = (x, st1) \<Longrightarrow>
   msa st1 = msa st \<and> warnings (trace st1) = warnings (trace st) \<and>
   text_files (trace st1) = text_files (trace st)"
  by (cases t)
    (auto simp: joint_matrix_def norm_matrix_def corr_matrix_def get_entropy_def Let_def
      split: task_splits)

text \<open>
  C4, as amended. When figures are requested and the plotting library can be imported, a
  failure of \<^verbatim>\<open>plt.figure\<close>, of \<^verbatim>\<open>showMutinfoMatrix\<close> or of \<^verbatim>\<open>savefig\<close>
  for a task whose text file has been written ends the loop with that exception: no warning
  is logged and none of the remaining tasks is processed, so their text files are not
  written.
\<close>

theorem figure_failure_ends_the_run:
  assumes fig: "truthy (kw_get (figcoevol kw) None)" and imp: "import_pyplot env = None"
    and sel: "select_matrix env kw t st = (Inr (m, s), st1)"
    and wr: "writeArray env (pfx @ s @ ''.txt'') m (kw_get (numformat kw) (Some ''%12g'')) = None"
    and args: "kw_get (figargs kw) (Some []) = Some args"
    and fmt: "kw_get (figformat kw) (Some ''pdf'') = Some fmt"
    and fail:
      "plt_figure env (kw_get (figwidth kw) (Some 8)) (kw_get (figheight kw) (Some 6)) = Some e \<or>
       plt_figure env (kw_get (figwidth kw) (Some 8)) (kw_get (figheight kw) (Some 6)) = None \<and>
       showMutinfoMatrix env m args (msa st) = Some e \<or>
       plt_figure env (kw_get (figwidth kw) (Some 8)) (kw_get (figheight kw) (Some 6)) = None \<and>
       showMutinfoMatrix env m args (msa st) = None \<and>
       savefig env (pfx @ s @ ''.'' @ fmt) fmt (kw_get (figdpi kw) (Some 300)) = Some e"
  shows "\<exists>st'. run_todo env kw pfx (t # ts) st = (Some e, st') \<and>
           warnings (trace st') = warnings (trace st) \<and>
           text_files (trace st') = text_files (trace st) @ [pfx @ s @ ''.txt'']"
proof -
  note k = select_matrix_keeps [OF sel]
  from fail show ?thesis
  proof (elim disjE conjE)
    assume "plt_figure env (kw_get (figwidth kw) (Some 8)) (kw_get (figheight kw) (Some 6)) = Some e"
    then show ?thesis
      using fig imp sel wr k by (simp add: do_task_def write_text_def save_figure_def Let_def)
  next
    assume "plt_figure env (kw_get (figwidth kw) (Some 8)) (kw_get (figheight kw) (Some 6)) = None"
      and "showMutinfoMatrix env m args (msa st) = Some e"
    then show ?thesis
      using fig imp sel wr args k by (simp add: do_task_def write_text_def save_figure_def Let_def)
  next
    assume "plt_figure env (kw_get (figwidth kw) (Some 8)) (kw_get (figheight kw) (Some 6)) = None"
      and "showMutinfoMatrix env m args (msa st) = None"
      and "savefig env (pfx @ s @ ''.'' @ fmt) fmt (kw_get (figdpi kw) (Some 300)) = Some e"
    then show ?thesis
      using fig imp sel wr args fmt k
      by (simp add: do_task_def write_text_def save_figure_def Let_def)
  qed
qed

theorem figure_failure_ends_the_run_witness:
  "truthy (kw_get (figcoevol plot_kwargs) None) \<and> import_pyplot failing_savefig = None \<and>
   select_matrix failing_savefig plot_kwargs Base state0 = (Inr (''mutinfo'', ''''), state0) \<and>
   writeArray failing_savefig (''out'' @ '''' @ ''.txt'') ''mutinfo''
     (kw_get (numformat plot_kwargs) (Some ''%12g'')) = None \<and>
   kw_get (figargs plot_kwargs) (Some []) = Some [] \<and>
   kw_get (figformat plot_kwargs) (Some ''pdf'') = Some ''pdf'' \<and>
   plt_figure failing_savefig (kw_get (figwidth plot_kwargs) (Some 8))
     (kw_get (figheight plot_kwargs) (Some 6)) = None \<and>
   showMutinfoMatrix failing_savefig ''mutinfo'' [] (msa state0) = None \<and>
   savefig failing_savefig (''out'' @ '''' @ ''.'' @ ''pdf'') ''pdf''
     (kw_get (figdpi plot_kwargs) (Some 300)) = Some (Raised ''IOError'') \<and>
   fst (run_todo failing_savefig plot_kwargs ''out'' [Base, Norm ''minent''] state0) =
     Some (Raised ''IOError'') \<and>
   warnings (trace (snd (run_todo failing_savefig plot_kwargs ''out'' [Base, Norm ''minent''] state0))) = 0 \<and>
   text_files (trace (snd (run_todo failing_savefig plot_kwargs ''out'' [Base, Norm ''minent''] state0))) =
     [''out.txt'']"
proof -
  have fig: "truthy (kw_get (figcoevol plot_kwargs) None)"
    by (simp add: plot_kwargs_def no_kwargs_def)
  have imp: "import_pyplot failing_savefig = None"
    by (simp add: failing_savefig_def stub_def)
  have sel: "select_matrix failing_savefig plot_kwargs Base state0 = (Inr (''mutinfo'', ''''), state0)"
    by (simp add: state0_def)
  have wr: "writeArray failing_savefig (''out'' @ '''' @ ''.txt'') ''mutinfo''
     (kw_get (numformat plot_kwargs) (Some ''%12g'')) = None"
    by (simp add: failing_savefig_def stub_def)
  have args: "kw_get (figargs plot_kwargs) (Some []) = Some []"
    by (simp add: plot_kwargs_def no_kwargs_def)
  have fmt: "kw_get (figformat plot_kwargs) (Some ''pdf'') = Some ''pdf''"
    by (simp add: plot_kwargs_def no_kwargs_def)
  have f1: "plt_figure failing_savefig (kw_get (figwidth plot_kwargs) (Some 8))
     (kw_get (figheight plot_kwargs) (Some 6)) = None"
    by (simp add: failing_savefig_def stub_def)
  have f2: "showMutinfoMatrix failing_savefig ''mutinfo'' [] (msa state0) = None"
    by (simp add: failing_savefig_def stub_def)
  have f3: "savefig failing_savefig (''out'' @ '''' @ ''.'' @ ''pdf'') ''pdf''
     (kw_get (figdpi plot_kwargs) (Some 300)) = Some (Raised ''IOError'')"
    by (simp add: failing_savefig_def stub_def)
  from f1 f2 f3 have fail:
    "plt_figure failing_savefig (kw_get (figwidth plot_kwargs) (Some 8))
       (kw_get (figheight plot_kwargs) (Some 6)) = Some (Raised ''IOError'') \<or>
     plt_figure failing_savefig (kw_get (figwidth plot_kwargs) (Some 8))
       (kw_get (figheight plot_kwargs) (Some 6)) = None \<and>
     showMutinfoMatrix failing_savefig ''mutinfo'' [] (msa state0) = Some (Raised ''IOError'') \<or>
     plt_figure failing_savefig (kw_get (figwidth plot_kwargs) (Some 8))
       (kw_get (figheight plot_kwargs) (Some 6)) = None \<and>
     showMutinfoMatrix failing_savefig ''mutinfo'' [] (msa state0) = None \<and>
     savefig failing_savefig (''out'' @ '''' @ ''.'' @ ''pdf'') ''pdf''
       (kw_get (figdpi plot_kwargs) (Some 300)) = Some (Raised ''IOError'')"
    by (intro disjI2 conjI)
  from figure_failure_ends_the_run [OF fig imp sel wr args fmt fail, of "[Norm ''minent'']"]
  obtain st' where
    r: "run_todo failing_savefig plot_kwargs ''out'' [Base, Norm ''minent''] state0 =
          (Some (Raised ''IOError''), st')"
    and w: "warnings (trace st') = warnings (trace state0)"
    and t: "text_files (trace st') = text_files (trace state0) @ [''out'' @ '''' @ ''.txt'']"
    by blast
  have c1: "fst (run_todo failing_savefig plot_kwargs ''out'' [Base, Norm ''minent''] state0) =
     Some (Raised ''IOError'')"
    by (simp only: r fst_conv)
  from w have w0: "warnings (trace st') = 0"
    by (simp add: state0_def)
  from t have t0: "text_files (trace st') = [''out.txt'']"
    by (simp add: state0_def)
  have c2: "warnings (trace (snd (run_todo failing_savefig plot_kwargs ''out''
      [Base, Norm ''minent''] state0))) = 0"
    unfolding r snd_conv by (rule w0)
  have c3: "text_files (trace (snd (run_todo failing_savefig plot_kwargs ''out''
      [Base, Norm ''minent''] state0))) = [''out.txt'']"
    unfolding r snd_conv by (rule t0)
  show ?thesis
    by (intro conjI) (fact fig imp sel wr args fmt f1 f2 f3 c1 c2 c3)+
qed

text \<open>
  The claim C4 as it stands, that the failure is reported and the remaining tasks are
  processed, fails when \<^verbatim>\<open>savefig\<close> raises for the base task of
  \<^verbatim>\<open>-m minent -S\<close>: the call ends with the exception right after the
  \<^verbatim>\<open>savefig\<close> call, without a warning and without the file of \<^verbatim>\<open>minent\<close>.
\<close>

theorem savefig_failure_is_fatal:
  "import_pyplot failing_savefig = None \<and>
   todo plot_kwargs = [Base, Norm ''minent''] \<and>
   fst (evol_coevol failing_savefig plot_kwargs Map.empty ''piwi_refined.slx'') =
     Some (Raised ''IOError'') \<and>
   text_files (trace (snd (evol_coevol failing_savefig plot_kwargs Map.empty ''piwi_refined.slx''))) =
     [''piwi_refined_mutinfo.txt'', ''piwi_refined_mutinfo.txt''] \<and>
   warnings (trace (snd (evol_coevol failing_savefig plot_kwargs Map.empty ''piwi_refined.slx''))) = 0 \<and>
   last (trace (snd (evol_coevol failing_savefig plot_kwargs Map.empty ''piwi_refined.slx''))) =
     SaveFig ''piwi_refined_mutinfo.pdf'' ''pdf'' (Some 300)"
  by (simp add: run_defs failing_savefig_def stub_def plot_kwargs_def no_kwargs_def)







subsection \<open>The options cmin and cmax\<close>

lemma do_task_cmin_cmax:
  assumes "\<And>a n. buildMutinfoMatrix env a n (kw\<lparr>cmin := x, cmax := y\<rparr>) =
             buildMutinfoMatrix env a n kw"
    and "\<And>a. calcShannonEntropy env a (kw\<lparr>cmin := x, cmax := y\<rparr>) = calcShannonEntropy env a kw"
  shows "do_task env (kw\<lparr>cmin := x, cmax := y\<rparr>) pfx t st = do_task env kw pfx t st"
proof -
  have "get_entropy env (kw\<lparr>cmin := x, cmax := y\<rparr>) st' = get_entropy env kw st'" for st'
    by (cases "entropy st'") (simp_all add: get_entropy_def assms)
  then have sel: "select_matrix env (kw\<lparr>cmin := x, cmax := y\<rparr>) t st = select_matrix env kw t st"
    by (cases t) (simp_all add: joint_matrix_def norm_matrix_def assms)
  have wt: "write_text env (kw\<lparr>cmin := x, cmax := y\<rparr>) pfx m s st' = write_text env kw pfx m s st'"
    for m s st'
    by (simp add: write_text_def)
  have sf: "save_figure env (kw\<lparr>cmin := x, cmax := y\<rparr>) pfx m s st' = save_figure env kw pfx m s st'"
    for m s st'
    by (simp add: save_figure_def Let_def cong: option.case_cong if_cong)
  show ?thesis
    by (simp add: do_task_def sel wt sf cong: prod.case_cong sum.case_cong option.case_cong)
qed

lemma run_todo_cmin_cmax:
  assumes "\<And>a n. buildMutinfoMatrix env a n (kw\<lparr>cmin := x, cmax := y\<rparr>) =
             buildMutinfoMatrix env a n kw"
    and "\<And>a. calcShannonEntropy env a (kw\<lparr>cmin := x, cmax := y\<rparr>) = calcShannonEntropy env a kw"
  shows "run_todo env (kw\<lparr>cmin := x, cmax := y\<rparr>) pfx ts st = run_todo env kw pfx ts st"
  by (induction ts arbitrary: st)
    (simp_all add: do_task_cmin_cmax [OF assms] cong: prod.case_cong option.case_cong)

text \<open>
  C8. The function never reads \<^verbatim>\<open>cmin\<close> or \<^verbatim>\<open>cmax\<close> (lines 174, 175 and 182
  are comments). They reach \<^verbatim>\<open>buildMutinfoMatrix\<close> and \<^verbatim>\<open>calcShannonEntropy\<close>
  inside \<^verbatim>\<open>**kwargs\<close>; when these two routines give the same results whatever the
  two options are, two calls that differ only in \<^verbatim>\<open>cmin\<close> and \<^verbatim>\<open>cmax\<close> end the
  same way, with the same settings and the same trace: the same text files with the same
  matrices, the same figures.
\<close>

theorem cmin_and_cmax_are_inert:
  assumes "\<And>a n. buildMutinfoMatrix env a n (kw\<lparr>cmin := x, cmax := y\<rparr>) =
             buildMutinfoMatrix env a n kw"
    and "\<And>a. calcShannonEntropy env a (kw\<lparr>cmin := x, cmax := y\<rparr>) = calcShannonEntropy env a kw"
  shows "evol_coevol env (kw\<lparr>cmin := x, cmax := y\<rparr>) s0 file = evol_coevol env kw s0 file"
proof -
  have "todo (kw\<lparr>cmin := x, cmax := y\<rparr>) = todo kw"
    by (simp add: todo_def)
  moreover have "out_prefix (kw\<lparr>cmin := x, cmax := y\<rparr>) file = out_prefix kw file"
    by (simp add: out_prefix_def)
  ultimately show ?thesis
    by (simp add: evol_coevol_def Let_def run_todo_cmin_cmax [OF assms] assms(1)
        cong: prod.case_cong sum.case_cong option.case_cong)
qed

theorem cmin_and_cmax_are_inert_witness:
  "evol_coevol stub (plot_kwargs\<lparr>cmin := Given (Some (1 / 2)), cmax := Given (Some 3)\<rparr>)
     shown ''piwi_refined.slx'' =
   evol_coevol stub plot_kwargs shown ''piwi_refined.slx''"
proof -
  have b: "buildMutinfoMatrix stub a n
      (plot_kwargs\<lparr>cmin := Given (Some (1 / 2)), cmax := Given (Some 3)\<rparr>) =
      buildMutinfoMatrix stub a n plot_kwargs" for a n
    by (simp add: stub_def)
  have e: "calcShannonEntropy stub a
      (plot_kwargs\<lparr>cmin := Given (Some (1 / 2)), cmax := Given (Some 3)\<rparr>) =
      calcShannonEntropy stub a plot_kwargs" for a
    by (simp add: stub_def)
  show ?thesis
    by (rule cmin_and_cmax_are_inert [OF b e])
qed

subsection \<open>The default prefix\<close>

lemma splitext_append: "fst (splitext file) @ snd (splitext file) = file"
  by (simp add: splitext_def Let_def)

lemma splitext_gz_root:
  assumes "lower (snd (splitext file)) = ''.gz''"
  shows "fst (splitext file) = take (length file - 3) file"
proof -
  from assms have "length (lower (snd (splitext file))) = 3"
    by simp
  then have l: "length (snd (splitext file)) = 3"
    by (simp add: lower_def)
  have "take (length (fst (splitext file))) (fst (splitext file) @ snd (splitext file)) =
      fst (splitext file)"
    by simp
  moreover have "length (fst (splitext file)) = length file - 3"
    using l splitext_append [of "file"] by (metis add_diff_cancel_right' length_append)
  ultimately show ?thesis
    by (simp add: splitext_append)
qed

text \<open>
  C9, as amended. When no prefix is given (the key is absent or \<^verbatim>\<open>None\<close>), the
  prefix is the name of the input with its last three characters stripped first if its
  extension, as \<^verbatim>\<open>os.path.splitext\<close> splits it, is \<^verbatim>\<open>.gz\<close> in any letter
  case, then with the remaining extension stripped, then with \<^verbatim>\<open>_mutinfo\<close> appended.
  Both \<^verbatim>\<open>piwi_refined.slx\<close> and \<^verbatim>\<open>piwi_refined.slx.gz\<close> give
  \<^verbatim>\<open>piwi_refined_mutinfo\<close>.
\<close>

theorem default_prefix_strips_gz_in_any_case:
  "default_prefix file =
     fst (splitext (if lower (snd (splitext file)) = ''.gz''
                    then take (length file - 3) file else file)) @ ''_mutinfo'' \<and>
   out_prefix (kw\<lparr>prefix := Absent\<rparr>) file = default_prefix file \<and>
   out_prefix (kw\<lparr>prefix := Given None\<rparr>) file = default_prefix file \<and>
   default_prefix ''piwi_refined.slx'' = ''piwi_refined_mutinfo'' \<and>
   default_prefix ''piwi_refined.slx.gz'' = ''piwi_refined_mutinfo''"
proof (intro conjI)
  show "out_prefix (kw\<lparr>prefix := Absent\<rparr>) file = default_prefix file"
    and "out_prefix (kw\<lparr>prefix := Given None\<rparr>) file = default_prefix file"
    by (simp_all add: out_prefix_def)
  show "default_prefix file =
     fst (splitext (if lower (snd (splitext file)) = ''.gz''
                    then take (length file - 3) file else file)) @ ''_mutinfo''"
  proof -
    obtain p ext where pe: "splitext file = (p, ext)"
      by (cases "splitext file") auto
    show ?thesis
    proof (cases "lower ext = ''.gz''")
      case True
      with pe have "lower (snd (splitext file)) = ''.gz''"
        by simp
      from splitext_gz_root [OF this] pe have "take (length file - 3) file = p"
        by simp
      with pe True show ?thesis
        by (simp add: default_prefix_def)
    next
      case False
      with pe show ?thesis
        by (simp add: default_prefix_def)
    qed
  qed
  show "default_prefix ''piwi_refined.slx'' = ''piwi_refined_mutinfo''"
    by (simp add: default_prefix_def splitext_def rfind_def lower_def lower_char_def)
  show "default_prefix ''piwi_refined.slx.gz'' = ''piwi_refined_mutinfo''"
    by (simp add: default_prefix_def splitext_def rfind_def lower_def lower_char_def)
qed

text \<open>
  The claim C9 as it stands, with the characters \<^verbatim>\<open>.gz\<close> stripped from the end of
  the name when they are there, fails in both directions: line 122 lowers the extension
  before the comparison, so \<^verbatim>\<open>.GZ\<close> is stripped as well, and \<^verbatim>\<open>splitext\<close> sees
  no extension in the name \<^verbatim>\<open>.gz\<close>, which is kept whole.
\<close>

theorem upper_case_gz_is_stripped_too:
  "default_prefix ''piwi_refined.slx.GZ'' = ''piwi_refined_mutinfo'' \<and>
   prefix_as_stated ''piwi_refined.slx.GZ'' = ''piwi_refined.slx_mutinfo'' \<and>
   default_prefix ''piwi_refined.slx.GZ'' \<noteq> prefix_as_stated ''piwi_refined.slx.GZ'' \<and>
   default_prefix ''.gz'' = ''.gz_mutinfo'' \<and>
   prefix_as_stated ''.gz'' = ''_mutinfo'' \<and>
   default_prefix ''.gz'' \<noteq> prefix_as_stated ''.gz''"
  by (simp add: default_prefix_def prefix_as_stated_def strip_gz_def splitext_def rfind_def
      lower_def lower_char_def)

end
